theory Spec2Isabelle
  imports Main "HOL-Library.Word" "HOL-Library.AList"
begin

unbundle bit_operations_syntax

section \<open>The virtual SFTP file system of pkg/srvconn/sftpfile.go\<close>

text \<open>
  A shallow embedding of \<^verbatim>\<open>src/pkg/srvconn/sftpfile.go\<close>. Go strings are byte
  strings (\<open>string\<close>), a Go map that is iterated is an association list whose order
  stands for the (unspecified) iteration order, a Go map that is only looked up is a
  partial function, a pointer that may be nil is an \<open>option\<close>, and every effect of an
  operation (a call of the remote SFTP client, a call of the connection broker, a
  record sent on the audit channel) is appended to a trace held in the state.
\<close>

subsection \<open>The functions of the Go library that the file uses\<close>

text \<open>\<^verbatim>\<open>strings.TrimPrefix(s, "/")\<close>: one leading slash is removed, if there is one.\<close>

definition TrimPrefix :: "string \<Rightarrow> string" where
  "TrimPrefix s = (case s of [] \<Rightarrow> [] | c # cs \<Rightarrow> if c = CHR ''/'' then cs else s)"

text \<open>\<^verbatim>\<open>strings.Split(s, "/")\<close>: the pieces between the slashes; never the empty list.\<close>

fun SplitAcc :: "string \<Rightarrow> string \<Rightarrow> string list" where
  "SplitAcc acc [] = [rev acc]"
| "SplitAcc acc (c # cs) =
     (if c = CHR ''/'' then rev acc # SplitAcc [] cs else SplitAcc (c # acc) cs)"

definition Split :: "string \<Rightarrow> string list" where
  "Split s = SplitAcc [] s"

text \<open>\<^verbatim>\<open>strings.Join(elems, "/")\<close>.\<close>

fun JoinSlash :: "string list \<Rightarrow> string" where
  "JoinSlash [] = []"
| "JoinSlash [x] = x"
| "JoinSlash (x # y # ys) = x @ ''/'' @ JoinSlash (y # ys)"

text \<open>\<^verbatim>\<open>strings.ReplaceAll(s, "/", "_")\<close>.\<close>

definition ReplaceAll :: "string \<Rightarrow> string" where
  "ReplaceAll s = map (\<lambda>c. if c = CHR ''/'' then CHR ''_'' else c) s"

text \<open>
  \<^verbatim>\<open>strings.ToLower\<close> on the ASCII letters. The file compares the result with
  \<^verbatim>\<open>"home"\<close>, \<^verbatim>\<open>"~"\<close> and \<^verbatim>\<open>""\<close> only, and no character outside ASCII has one
  of the letters h, o, m, e as its lower case.
\<close>

definition lower_char :: "char \<Rightarrow> char" where
  "lower_char c =
     (case map_of (zip ''ABCDEFGHIJKLMNOPQRSTUVWXYZ'' ''abcdefghijklmnopqrstuvwxyz'') c of
        None \<Rightarrow> c
      | Some l \<Rightarrow> l)"

definition ToLower :: "string \<Rightarrow> string" where
  "ToLower s = map lower_char s"

text \<open>\<^verbatim>\<open>strings.HasPrefix(s, p)\<close> for a prefix of one character.\<close>

definition HasPrefix :: "string \<Rightarrow> char \<Rightarrow> bool" where
  "HasPrefix s p = (case s of [] \<Rightarrow> False | c # _ \<Rightarrow> c = p)"

text \<open>
  \<^verbatim>\<open>filepath.Clean\<close> on Unix, as the Go library computes it: \<open>out\<close> is the buffer
  written so far, \<open>dotdot\<close> the index in it where backtracking over a \<^verbatim>\<open>..\<close>
  must stop.
\<close>

fun backtrack :: "string \<Rightarrow> nat \<Rightarrow> nat \<Rightarrow> nat" where
  "backtrack out dotdot 0 = 0"
| "backtrack out dotdot (Suc w) =
     (if Suc w > dotdot \<and> out ! Suc w \<noteq> CHR ''/'' then backtrack out dotdot w else Suc w)"

definition atSeparatorOrEnd :: "string \<Rightarrow> bool" where
  "atSeparatorOrEnd s = (case s of [] \<Rightarrow> True | c # _ \<Rightarrow> c = CHR ''/'')"

function CleanLoop :: "bool \<Rightarrow> string \<Rightarrow> string \<Rightarrow> nat \<Rightarrow> string" where
  "CleanLoop rooted [] out dotdot = out"
| "CleanLoop rooted (c # cs) out dotdot =
     (if c = CHR ''/'' then CleanLoop rooted cs out dotdot
      else if c = CHR ''.'' \<and> atSeparatorOrEnd cs then CleanLoop rooted cs out dotdot
      else if c = CHR ''.'' \<and> HasPrefix cs CHR ''.'' \<and> atSeparatorOrEnd (drop 1 cs) then
        (if length out > dotdot then
           CleanLoop rooted (drop 1 cs) (take (backtrack out dotdot (length out - 1)) out) dotdot
         else if \<not> rooted then
           CleanLoop rooted (drop 1 cs) ((if length out > 0 then out @ ''/'' else out) @ ''..'')
             (length ((if length out > 0 then out @ ''/'' else out) @ ''..''))
         else CleanLoop rooted (drop 1 cs) out dotdot)
      else
        CleanLoop rooted (dropWhile (\<lambda>x. x \<noteq> CHR ''/'') cs)
          ((if rooted \<and> length out \<noteq> 1 \<or> \<not> rooted \<and> length out \<noteq> 0
            then out @ ''/'' else out) @ c # takeWhile (\<lambda>x. x \<noteq> CHR ''/'') cs) dotdot)"
  by pat_completeness auto
termination
  by (relation "measure (\<lambda>(rooted, path, out, dotdot). length path)")
     (simp_all add: less_Suc_eq_le length_dropWhile_le)

definition Clean :: "string \<Rightarrow> string" where
  "Clean path =
     (if path = [] then ''.''
      else let rooted = (hd path = CHR ''/'');
               out = CleanLoop rooted (if rooted then tl path else path)
                       (if rooted then ''/'' else []) (if rooted then 1 else 0)
           in if out = [] then ''.'' else out)"

text \<open>
  \<^verbatim>\<open>filepath.Join(a, b)\<close>: the non-empty elements, from the first non-empty one on,
  joined with slashes and cleaned; the empty string when both are empty.
\<close>

definition filepath_Join :: "string \<Rightarrow> string \<Rightarrow> string" where
  "filepath_Join a b =
     (if a \<noteq> [] then Clean (a @ ''/'' @ b) else if b \<noteq> [] then Clean b else [])"

subsection \<open>The data of the file\<close>

text \<open>
  The action names \<^verbatim>\<open>model.ConnectAction\<close>, \<^verbatim>\<open>model.UploadAction\<close>,
  \<^verbatim>\<open>model.DownloadAction\<close> and \<^verbatim>\<open>model.AllAction\<close> are string constants declared
  outside this file; they are pairwise different, and a credential may carry any other
  string as well.
\<close>

datatype Action = ConnectAction | UploadAction | DownloadAction | AllAction | OtherAction string

text \<open>The operation names \<^verbatim>\<open>model.OperateUpload\<close> ... written into an audit record.\<close>

datatype Operate =
  OperateUpload | OperateDownload | OperateMkdir | OperateRename | OperateSymlink
  | OperateDelete | OperateRemoveDir

text \<open>
  The errors an operation returns: the SFTP status errors the file names, its own
  \<^verbatim>\<open>errNoSystemUser\<close>, and any other error that the remote end reports.
\<close>

datatype error =
  ErrSshFxPermissionDenied | ErrSshFxConnectionLost | ErrSshFxOpUnsupported
  | ErrSshFxNoSuchFile | errNoSystemUser | OtherError string

text \<open>
  A Go function either returns its results or panics (a nil pointer is dereferenced,
  a slice is indexed out of range).
\<close>

datatype 'a outcome = Return 'a | Panic

text \<open>
  \<^verbatim>\<open>model.SystemUser\<close>, with the fields that the file operations read or write. The
  user name and the secrets, which only the connection broker reads and refreshes,
  are left out.
\<close>

record SystemUser =
  ID :: string
  Name :: string
  Protocol :: string
  SftpRoot :: string
  Actions :: "Action list"

text \<open>
  \<^verbatim>\<open>SftpConn\<close>: the home directory and the SFTP client, which is given by a handle.
  A \<^verbatim>\<open>*SftpConn\<close> is an \<open>SftpConn option\<close>, \<open>None\<close> for nil.
\<close>

record SftpConn =
  HomeDirPath :: string
  client :: nat

text \<open>\<^verbatim>\<open>model.FTPLog\<close>, without the time stamp \<^verbatim>\<open>DataStart\<close>.\<close>

record FTPLog =
  User :: string
  Hostname :: string
  OrgID :: string
  SystemUserName :: string
  RemoteAddr :: string
  OperateOf :: Operate
  Path :: string
  IsSuccess :: bool

text \<open>\<^verbatim>\<open>FakeFileInfo\<close>, without its time stamp; \<open>fsize\<close> is the field \<^verbatim>\<open>size\<close>, an \<^verbatim>\<open>int64\<close>.\<close>

record FakeFileInfo =
  name :: string
  isDir :: bool
  fsize :: "64 word"
  symlink :: string

definition NewFakeFile :: "string \<Rightarrow> bool \<Rightarrow> FakeFileInfo" where
  "NewFakeFile n d = \<lparr>name = n, isDir = d, fsize = 0, symlink = []\<rparr>"

text \<open>
  An \<^verbatim>\<open>os.FileInfo\<close> that the SFTP client returns: the file reads its \<^verbatim>\<open>Name()\<close>
  and its \<^verbatim>\<open>IsDir()\<close>.
\<close>

datatype RemoteFileInfo = RemoteFileInfo (Name_of: string) (IsDir_of: bool)

text \<open>An \<^verbatim>\<open>os.FileInfo\<close> in a listing: a synthetic entry of this file, or one of the remote end.\<close>

datatype FileInfo = Fake FakeFileInfo | Remote RemoteFileInfo

fun FileInfo_Name :: "FileInfo \<Rightarrow> string" where
  "FileInfo_Name (Fake f) = name f"
| "FileInfo_Name (Remote f) = Name_of f"

fun FileInfo_IsDir :: "FileInfo \<Rightarrow> bool" where
  "FileInfo_IsDir (Fake f) = isDir f"
| "FileInfo_IsDir (Remote f) = IsDir_of f"

text \<open>The calls of the methods of \<^verbatim>\<open>sftp.Client\<close> that the file makes.\<close>

datatype request =
  ReqCreate string | ReqMkdirAll string | ReqOpen string | ReqReadDir string
  | ReqReadLink string | ReqStat string | ReqRename string string
  | ReqSymlink string string | ReqRemove string | ReqRemoveDirectory string

text \<open>
  What a method of \<^verbatim>\<open>sftp.Client\<close> returns: its error (\<open>None\<close> for nil) and,
  for the method that has one, a file handle, a listing, a link target or a file info.
\<close>

record reply =
  err :: "error option"
  fileHandle :: "nat option"
  infos :: "RemoteFileInfo list"
  target :: string
  info :: "RemoteFileInfo option"

text \<open>
  The world outside the file. \<open>remote\<close> is the remote end of the SFTP clients: it
  answers a request of a client, given all the requests made before. \<open>GetSftpClient\<close>
  stands for the method of that name, the connection broker: its body dials SSH, asks
  the directory service and the client cache, which are not in this file, so it is
  given by its result, a connection or an error (\<open>None\<close>), which may depend on the
  identifiers of the credentials it was called for before.
\<close>

record env =
  remote :: "(nat \<times> request) list \<Rightarrow> nat \<Rightarrow> request \<Rightarrow> reply"
  GetSftpClient :: "string list \<Rightarrow> SystemUser \<Rightarrow> SftpConn option"

text \<open>\<^verbatim>\<open>model.Asset\<close>, with the fields that the file reads.\<close>

record Asset =
  asset_ID :: string
  asset_Hostname :: string
  asset_OrgID :: string
  asset_Domain :: string

text \<open>
  \<^verbatim>\<open>AssetDir\<close>. Of \<^verbatim>\<open>user\<close> the two fields written into an audit record are kept.
  \<open>suMaps\<close> maps a folder name to its credential, each key once, as the loader
  builds it; the folder name also stands for the pointer \<^verbatim>\<open>*model.SystemUser\<close>
  stored under it. \<open>once\<close> says that the one-time
  load has run. \<open>logChan\<close> holds the records sent on the channel, \<open>requests\<close> the
  calls made on SFTP clients and \<open>dials\<close> the calls of the connection broker, each
  oldest first. The gateways in \<^verbatim>\<open>domain\<close>, the time-out and the reuse flag are read
  by the connection broker only.
\<close>

record AssetDir =
  user_Name :: string
  user_Username :: string
  asset :: Asset
  ad_folderName :: string
  addr :: string
  suMaps :: "(string \<times> SystemUser) list"
  logChan :: "FTPLog list"
  sftpClients :: "string \<rightharpoonup> SftpConn"
  once :: bool
  ShowHidden :: bool
  requests :: "(nat \<times> request) list"
  dials :: "string list"

subsection \<open>File modes\<close>

type_synonym FileMode = "32 word"

definition ModeDir :: FileMode where
  "ModeDir = push_bit 31 1"

definition ModeSymlink :: FileMode where
  "ModeSymlink = push_bit 27 1"

text \<open>\<^verbatim>\<open>AssetDir.Mode\<close>; the octal literals 0444 and 0644 are 292 and 420.\<close>

definition Mode :: "AssetDir \<Rightarrow> FileMode" where
  "Mode ad = (if length (suMaps ad) > 1 then 292 OR ModeDir else 420 OR ModeDir)"

text \<open>\<^verbatim>\<open>FakeFileInfo.Mode\<close>; 0644, 0755 and 0777 are 420, 493 and 511.\<close>

definition FakeFileInfo_Mode :: "FakeFileInfo \<Rightarrow> FileMode" where
  "FakeFileInfo_Mode f =
     (let ret = 420;
          ret = (if isDir f then 493 OR ModeDir else ret);
          ret = (if symlink f \<noteq> [] then 511 OR ModeSymlink else ret)
      in ret)"

subsection \<open>Paths, credentials and permissions\<close>

definition parsePath :: "string \<Rightarrow> string list" where
  "parsePath path = Split (TrimPrefix path)"

definition getSubFolderNames :: "AssetDir \<Rightarrow> string list" where
  "getSubFolderNames ad = map fst (suMaps ad)"

definition IsUniqueSu :: "AssetDir \<Rightarrow> string \<times> bool" where
  "IsUniqueSu ad =
     (let sus = getSubFolderNames ad in
      if length sus = 1 then (sus ! 0, True) else ([], False))"

text \<open>
  \<^verbatim>\<open>AssetDir.validatePermission\<close>: the loop over \<^verbatim>\<open>su.Actions\<close>, which is passed as
  the list itself.
\<close>

fun validatePermission :: "Action list \<Rightarrow> Action \<Rightarrow> bool" where
  "validatePermission [] action = False"
| "validatePermission (pemAction # rest) action =
     (if pemAction = action \<or> pemAction = AllAction then True
      else validatePermission rest action)"

definition CreateFTPLog :: "AssetDir \<Rightarrow> SystemUser \<Rightarrow> Operate \<Rightarrow> string \<Rightarrow> bool \<Rightarrow> AssetDir" where
  "CreateFTPLog ad su operate filename isSuccess =
     ad\<lparr>logChan := logChan ad @
        [\<lparr>User = user_Name ad @ ''('' @ user_Username ad @ '')'',
          Hostname = asset_Hostname (asset ad),
          OrgID = asset_OrgID (asset ad),
          SystemUserName = Name su,
          RemoteAddr = addr ad,
          OperateOf = operate,
          Path = filename,
          IsSuccess = isSuccess\<rparr>]\<rparr>"

text \<open>
  \<^verbatim>\<open>AssetDir.GetSFTPAndRealPath\<close>. \<open>key\<close> is the folder name under which \<open>su\<close> is
  stored: the assignment to \<^verbatim>\<open>su.SftpRoot\<close> goes through the pointer, so it changes
  the credential held in \<open>suMaps\<close>, and the credential is returned as it stands
  after the call, beside the two results of the Go method.
\<close>

definition GetSFTPAndRealPath ::
  "env \<Rightarrow> AssetDir \<Rightarrow> string \<Rightarrow> SystemUser \<Rightarrow> string
     \<Rightarrow> (SftpConn option \<times> string) \<times> SystemUser \<times> AssetDir" where
  "GetSFTPAndRealPath e ad key su path =
     (let (conn, ad) =
        (case sftpClients ad (ID su) of
           Some c \<Rightarrow> (Some c, ad)
         | None \<Rightarrow>
             (case GetSftpClient e (dials ad) su of
                None \<Rightarrow> (None, ad\<lparr>dials := dials ad @ [ID su]\<rparr>)
              | Some c \<Rightarrow>
                  (Some c, ad\<lparr>dials := dials ad @ [ID su],
                              sftpClients := (sftpClients ad)(ID su \<mapsto> c)\<rparr>)))
      in case conn of
           None \<Rightarrow> ((None, []), su, ad)
         | Some c \<Rightarrow>
             if ToLower (SftpRoot su) = ''home'' \<or> ToLower (SftpRoot su) = ''~''
                \<or> ToLower (SftpRoot su) = []
             then ((Some c, filepath_Join (HomeDirPath c) (TrimPrefix path)), su, ad)
             else
               let su = (if \<not> HasPrefix (SftpRoot su) CHR ''/''
                         then su\<lparr>SftpRoot := ''/'' @ SftpRoot su\<rparr> else su)
               in ((Some c, filepath_Join (SftpRoot su) (TrimPrefix path)),
                   su, ad\<lparr>suMaps := AList.map_entry key (\<lambda>_. su) (suMaps ad)\<rparr>))"

subsection \<open>The file operations of \<^verbatim>\<open>AssetDir\<close>\<close>

text \<open>A call of a method of the SFTP client \<open>c\<close>: the remote end answers, the call is recorded.\<close>

definition call :: "env \<Rightarrow> AssetDir \<Rightarrow> nat \<Rightarrow> request \<Rightarrow> reply \<times> AssetDir" where
  "call e ad c rq = (remote e (requests ad) c rq, ad\<lparr>requests := requests ad @ [(c, rq)]\<rparr>)"

text \<open>
  The statements \<^verbatim>\<open>folderName = pathData[0]; pathData = pathData[1:]\<close> that the
  operations run when the credential is not unique; indexing an empty slice panics.
\<close>

definition selectFolder :: "string \<times> bool \<Rightarrow> string list \<Rightarrow> (string \<times> string list) outcome" where
  "selectFolder u pathData =
     (if snd u then Return (fst u, pathData)
      else case pathData of [] \<Rightarrow> Panic | p # ps \<Rightarrow> Return (p, ps))"

definition Create :: "env \<Rightarrow> AssetDir \<Rightarrow> string \<Rightarrow> (nat option \<times> error option) outcome \<times> AssetDir" where
  "Create e ad path =
     (let pathData = parsePath path; u = IsUniqueSu ad in
      if \<not> snd u \<and> pathData = [[]] then (Return (None, Some ErrSshFxPermissionDenied), ad)
      else case selectFolder u pathData of
        Panic \<Rightarrow> (Panic, ad)
      | Return (folderName, pathData) \<Rightarrow>
          (case map_of (suMaps ad) folderName of
             None \<Rightarrow> (Return (None, Some errNoSystemUser), ad)
           | Some su \<Rightarrow>
               if \<not> validatePermission (Actions su) UploadAction
               then (Return (None, Some ErrSshFxPermissionDenied), ad)
               else
                 (case GetSFTPAndRealPath e ad folderName su (JoinSlash pathData) of
                    ((None, realPath), su, ad) \<Rightarrow> (Return (None, Some ErrSshFxConnectionLost), ad)
                  | ((Some con, realPath), su, ad) \<Rightarrow>
                      (case call e ad (client con) (ReqCreate realPath) of
                         (r, ad) \<Rightarrow>
                           (Return (fileHandle r, err r),
                            CreateFTPLog ad su OperateUpload realPath (err r = None))))))"

definition MkdirAll :: "env \<Rightarrow> AssetDir \<Rightarrow> string \<Rightarrow> error option outcome \<times> AssetDir" where
  "MkdirAll e ad path =
     (let pathData = parsePath path; u = IsUniqueSu ad in
      if \<not> snd u \<and> pathData = [[]] then (Return (Some ErrSshFxPermissionDenied), ad)
      else case selectFolder u pathData of
        Panic \<Rightarrow> (Panic, ad)
      | Return (folderName, pathData) \<Rightarrow>
          (case map_of (suMaps ad) folderName of
             None \<Rightarrow> (Return (Some errNoSystemUser), ad)
           | Some su \<Rightarrow>
               if \<not> validatePermission (Actions su) UploadAction
               then (Return (Some ErrSshFxPermissionDenied), ad)
               else
                 (case GetSFTPAndRealPath e ad folderName su (JoinSlash pathData) of
                    ((None, realPath), su, ad) \<Rightarrow> (Return (Some ErrSshFxConnectionLost), ad)
                  | ((Some con, realPath), su, ad) \<Rightarrow>
                      (case call e ad (client con) (ReqMkdirAll realPath) of
                         (r, ad) \<Rightarrow>
                           (Return (err r),
                            CreateFTPLog ad su OperateMkdir realPath (err r = None))))))"

definition Open :: "env \<Rightarrow> AssetDir \<Rightarrow> string \<Rightarrow> (nat option \<times> error option) outcome \<times> AssetDir" where
  "Open e ad path =
     (let pathData = parsePath path; u = IsUniqueSu ad in
      if \<not> snd u \<and> pathData = [[]] then (Return (None, Some ErrSshFxPermissionDenied), ad)
      else case selectFolder u pathData of
        Panic \<Rightarrow> (Panic, ad)
      | Return (folderName, pathData) \<Rightarrow>
          (case map_of (suMaps ad) folderName of
             None \<Rightarrow> (Return (None, Some errNoSystemUser), ad)
           | Some su \<Rightarrow>
               if \<not> validatePermission (Actions su) DownloadAction
               then (Return (None, Some ErrSshFxPermissionDenied), ad)
               else
                 (case GetSFTPAndRealPath e ad folderName su (JoinSlash pathData) of
                    ((None, realPath), su, ad) \<Rightarrow> (Return (None, Some ErrSshFxConnectionLost), ad)
                  | ((Some con, realPath), su, ad) \<Rightarrow>
                      (case call e ad (client con) (ReqOpen realPath) of
                         (r, ad) \<Rightarrow>
                           (Return (fileHandle r, err r),
                            CreateFTPLog ad su OperateDownload realPath (err r = None))))))"

text \<open>
  \<^verbatim>\<open>ReadDir\<close> returns a listing and an error; both may be present, since the listing
  of the remote end is filtered and returned together with its error.
\<close>

definition ReadDir :: "env \<Rightarrow> AssetDir \<Rightarrow> string \<Rightarrow> (FileInfo list \<times> error option) outcome \<times> AssetDir" where
  "ReadDir e ad path =
     (let pathData = parsePath path; u = IsUniqueSu ad in
      if \<not> snd u \<and> pathData = [[]]
      then (Return (map (\<lambda>folderName. Fake (NewFakeFile folderName True))
                      (getSubFolderNames ad), None), ad)
      else case selectFolder u pathData of
        Panic \<Rightarrow> (Panic, ad)
      | Return (folderName, pathData) \<Rightarrow>
          (case map_of (suMaps ad) folderName of
             None \<Rightarrow> (Return ([], Some errNoSystemUser), ad)
           | Some su \<Rightarrow>
               if \<not> validatePermission (Actions su) ConnectAction
               then (Return ([], Some ErrSshFxPermissionDenied), ad)
               else
                 (case GetSFTPAndRealPath e ad folderName su (JoinSlash pathData) of
                    ((None, realPath), su, ad) \<Rightarrow> (Return ([], Some ErrSshFxConnectionLost), ad)
                  | ((Some con, realPath), su, ad) \<Rightarrow>
                      (case call e ad (client con) (ReqReadDir realPath) of
                         (r, ad) \<Rightarrow>
                           if \<not> ShowHidden ad
                           then (Return (map Remote
                                           (filter (\<lambda>f. \<not> HasPrefix (Name_of f) CHR ''.'')
                                              (infos r)), err r), ad)
                           else (Return (map Remote (infos r), err r), ad)))))"

definition ReadLink :: "env \<Rightarrow> AssetDir \<Rightarrow> string \<Rightarrow> (string \<times> error option) outcome \<times> AssetDir" where
  "ReadLink e ad path =
     (let pathData = parsePath path in
      if pathData = [[]] then (Return ([], Some ErrSshFxOpUnsupported), ad)
      else case selectFolder (IsUniqueSu ad) pathData of
        Panic \<Rightarrow> (Panic, ad)
      | Return (folderName, pathData) \<Rightarrow>
          (case map_of (suMaps ad) folderName of
             None \<Rightarrow> (Return ([], Some errNoSystemUser), ad)
           | Some su \<Rightarrow>
               if \<not> validatePermission (Actions su) ConnectAction
               then (Return ([], Some ErrSshFxPermissionDenied), ad)
               else
                 (case GetSFTPAndRealPath e ad folderName su (JoinSlash pathData) of
                    ((None, realPath), su, ad) \<Rightarrow> (Return ([], Some ErrSshFxConnectionLost), ad)
                  | ((Some con, realPath), su, ad) \<Rightarrow>
                      (case call e ad (client con) (ReqReadLink realPath) of
                         (r, ad) \<Rightarrow> (Return (target r, err r), ad)))))"

text \<open>What \<^verbatim>\<open>Stat\<close> returns as file info: the \<^verbatim>\<open>AssetDir\<close> itself, or what the remote end gave.\<close>

datatype StatInfo = TheAssetDir | FromRemote "RemoteFileInfo option"

definition Stat :: "env \<Rightarrow> AssetDir \<Rightarrow> string \<Rightarrow> (StatInfo \<times> error option) outcome \<times> AssetDir" where
  "Stat e ad path =
     (let pathData = parsePath path in
      if pathData = [[]] then (Return (TheAssetDir, None), ad)
      else case selectFolder (IsUniqueSu ad) pathData of
        Panic \<Rightarrow> (Panic, ad)
      | Return (folderName, pathData) \<Rightarrow>
          (case map_of (suMaps ad) folderName of
             None \<Rightarrow> (Return (FromRemote None, Some errNoSystemUser), ad)
           | Some su \<Rightarrow>
               if \<not> validatePermission (Actions su) ConnectAction
               then (Return (FromRemote None, Some ErrSshFxPermissionDenied), ad)
               else
                 (case GetSFTPAndRealPath e ad folderName su (JoinSlash pathData) of
                    ((None, realPath), su, ad) \<Rightarrow>
                      (Return (FromRemote None, Some ErrSshFxConnectionLost), ad)
                  | ((Some con, realPath), su, ad) \<Rightarrow>
                      (case call e ad (client con) (ReqStat realPath) of
                         (r, ad) \<Rightarrow> (Return (FromRemote (info r), err r), ad)))))"

definition Remove :: "env \<Rightarrow> AssetDir \<Rightarrow> string \<Rightarrow> error option outcome \<times> AssetDir" where
  "Remove e ad path =
     (let pathData = parsePath path; u = IsUniqueSu ad in
      if \<not> snd u \<and> pathData = [[]] then (Return (Some ErrSshFxPermissionDenied), ad)
      else case selectFolder u pathData of
        Panic \<Rightarrow> (Panic, ad)
      | Return (folderName, pathData) \<Rightarrow>
          (case map_of (suMaps ad) folderName of
             None \<Rightarrow> (Return (Some errNoSystemUser), ad)
           | Some su \<Rightarrow>
               if \<not> validatePermission (Actions su) UploadAction
               then (Return (Some ErrSshFxPermissionDenied), ad)
               else
                 (case GetSFTPAndRealPath e ad folderName su (JoinSlash pathData) of
                    ((None, realPath), su, ad) \<Rightarrow> (Return (Some ErrSshFxConnectionLost), ad)
                  | ((Some con, realPath), su, ad) \<Rightarrow>
                      (case call e ad (client con) (ReqRemove realPath) of
                         (r, ad) \<Rightarrow>
                           (Return (err r),
                            CreateFTPLog ad su OperateDelete realPath (err r = None))))))"

text \<open>
  \<^verbatim>\<open>AssetDir.removeDirectoryAll\<close> and the loop over the listing inside it. The depth of
  the walk is decided by the answers of the remote end, so the recursion is bounded by
  \<open>fuel\<close>, the number of nested calls allowed: \<open>None\<close> says that the walk did not
  return within it.
\<close>

fun removeDirectoryAll ::
    "nat \<Rightarrow> env \<Rightarrow> AssetDir \<Rightarrow> nat \<Rightarrow> string \<Rightarrow> (error option \<times> AssetDir) option"
  and removeFiles ::
    "nat \<Rightarrow> env \<Rightarrow> AssetDir \<Rightarrow> nat \<Rightarrow> string \<Rightarrow> RemoteFileInfo list
       \<Rightarrow> (error option \<times> AssetDir) option"
where
  "removeDirectoryAll 0 e ad conn path = None"
| "removeDirectoryAll (Suc fuel) e ad conn path =
     (case call e ad conn (ReqReadDir path) of
        (r, ad) \<Rightarrow>
          (case err r of
             Some x \<Rightarrow> Some (Some x, ad)
           | None \<Rightarrow>
               (case removeFiles fuel e ad conn path (infos r) of
                  None \<Rightarrow> None
                | Some (Some x, ad) \<Rightarrow> Some (Some x, ad)
                | Some (None, ad) \<Rightarrow>
                    (case call e ad conn (ReqRemoveDirectory path) of
                       (r, ad) \<Rightarrow> Some (err r, ad)))))"
| "removeFiles fuel e ad conn path [] = Some (None, ad)"
| "removeFiles fuel e ad conn path (item # files) =
     (let realPath = filepath_Join path (Name_of item) in
      if IsDir_of item then
        (case removeDirectoryAll fuel e ad conn realPath of
           None \<Rightarrow> None
         | Some (Some x, ad) \<Rightarrow> Some (Some x, ad)
         | Some (None, ad) \<Rightarrow> removeFiles fuel e ad conn path files)
      else
        (case call e ad conn (ReqRemove realPath) of
           (r, ad) \<Rightarrow>
             (case err r of
                Some x \<Rightarrow> Some (Some x, ad)
              | None \<Rightarrow> removeFiles fuel e ad conn path files)))"

text \<open>\<^verbatim>\<open>AssetDir.RemoveDirectory\<close>; \<open>None\<close> when the walk does not return within \<open>fuel\<close>.\<close>

definition RemoveDirectory ::
  "nat \<Rightarrow> env \<Rightarrow> AssetDir \<Rightarrow> string \<Rightarrow> (error option outcome \<times> AssetDir) option" where
  "RemoveDirectory fuel e ad path =
     (let pathData = parsePath path; u = IsUniqueSu ad in
      if \<not> snd u \<and> pathData = [[]] then Some (Return (Some ErrSshFxPermissionDenied), ad)
      else case selectFolder u pathData of
        Panic \<Rightarrow> Some (Panic, ad)
      | Return (folderName, pathData) \<Rightarrow>
          (case map_of (suMaps ad) folderName of
             None \<Rightarrow> Some (Return (Some errNoSystemUser), ad)
           | Some su \<Rightarrow>
               if \<not> validatePermission (Actions su) UploadAction
               then Some (Return (Some ErrSshFxPermissionDenied), ad)
               else
                 (case GetSFTPAndRealPath e ad folderName su (JoinSlash pathData) of
                    ((None, realPath), su, ad) \<Rightarrow> Some (Return (Some ErrSshFxConnectionLost), ad)
                  | ((Some con, realPath), su, ad) \<Rightarrow>
                      (case removeDirectoryAll fuel e ad (client con) realPath of
                         None \<Rightarrow> None
                       | Some (x, ad) \<Rightarrow>
                           Some (Return x,
                                 CreateFTPLog ad su OperateRemoveDir realPath (x = None))))))"

text \<open>
  The first statements of \<^verbatim>\<open>Rename\<close> and \<^verbatim>\<open>Symlink\<close> when the credential is not
  unique: the first segments of both paths are compared (\<open>Return None\<close> when they
  differ, where each method returns its own error) and then taken off.
\<close>

definition selectFolders ::
  "string \<times> bool \<Rightarrow> string list \<Rightarrow> string list
     \<Rightarrow> (string \<times> string list \<times> string list) option outcome" where
  "selectFolders u oldPathData newPathData =
     (if snd u then Return (Some (fst u, oldPathData, newPathData))
      else case oldPathData of
        [] \<Rightarrow> Panic
      | p # ps \<Rightarrow>
          (case newPathData of
             [] \<Rightarrow> Panic
           | q # qs \<Rightarrow> if p \<noteq> q then Return None else Return (Some (p, ps, qs))))"

text \<open>
  \<^verbatim>\<open>AssetDir.Rename\<close>. The method compares the two connections and then calls
  \<^verbatim>\<open>conn1.client.Rename\<close>: when both are nil, the nil pointer is dereferenced.
\<close>

definition Rename :: "env \<Rightarrow> AssetDir \<Rightarrow> string \<Rightarrow> string \<Rightarrow> error option outcome \<times> AssetDir" where
  "Rename e ad oldNamePath newNamePath =
     (let oldPathData = parsePath oldNamePath; newPathData = parsePath newNamePath in
      case selectFolders (IsUniqueSu ad) oldPathData newPathData of
        Panic \<Rightarrow> (Panic, ad)
      | Return None \<Rightarrow> (Return (Some ErrSshFxNoSuchFile), ad)
      | Return (Some (folderName, oldPathData, newPathData)) \<Rightarrow>
          (case map_of (suMaps ad) folderName of
             None \<Rightarrow> (Return (Some errNoSystemUser), ad)
           | Some su \<Rightarrow>
               (case GetSFTPAndRealPath e ad folderName su (JoinSlash oldPathData) of
                  ((conn1, oldRealPath), su, ad) \<Rightarrow>
                    (case GetSFTPAndRealPath e ad folderName su (JoinSlash newPathData) of
                       ((conn2, newRealPath), su, ad) \<Rightarrow>
                         if conn1 \<noteq> conn2 then (Return (Some ErrSshFxOpUnsupported), ad)
                         else
                           (case conn1 of
                              None \<Rightarrow> (Panic, ad)
                            | Some con \<Rightarrow>
                                (case call e ad (client con)
                                        (ReqRename oldRealPath newRealPath) of
                                   (r, ad) \<Rightarrow>
                                     (Return (err r),
                                      CreateFTPLog ad su OperateRename
                                        (oldRealPath @ ''=>'' @ newRealPath)
                                        (err r = None))))))))"

text \<open>\<^verbatim>\<open>AssetDir.Symlink\<close>.\<close>

definition Symlink :: "env \<Rightarrow> AssetDir \<Rightarrow> string \<Rightarrow> string \<Rightarrow> error option outcome \<times> AssetDir" where
  "Symlink e ad oldNamePath newNamePath =
     (let oldPathData = parsePath oldNamePath; newPathData = parsePath newNamePath in
      case selectFolders (IsUniqueSu ad) oldPathData newPathData of
        Panic \<Rightarrow> (Panic, ad)
      | Return None \<Rightarrow> (Return (Some errNoSystemUser), ad)
      | Return (Some (folderName, oldPathData, newPathData)) \<Rightarrow>
          (case map_of (suMaps ad) folderName of
             None \<Rightarrow> (Return (Some errNoSystemUser), ad)
           | Some su \<Rightarrow>
               if \<not> validatePermission (Actions su) UploadAction
               then (Return (Some ErrSshFxPermissionDenied), ad)
               else
               (case GetSFTPAndRealPath e ad folderName su (JoinSlash oldPathData) of
                  ((conn1, oldRealPath), su, ad) \<Rightarrow>
                    (case GetSFTPAndRealPath e ad folderName su (JoinSlash newPathData) of
                       ((conn2, newRealPath), su, ad) \<Rightarrow>
                         if conn1 \<noteq> conn2 then (Return (Some ErrSshFxOpUnsupported), ad)
                         else
                           (case conn1 of
                              None \<Rightarrow> (Panic, ad)
                            | Some con \<Rightarrow>
                                (case call e ad (client con)
                                        (ReqSymlink oldRealPath newRealPath) of
                                   (r, ad) \<Rightarrow>
                                     (Return (err r),
                                      CreateFTPLog ad su OperateSymlink
                                        (oldRealPath @ ''=>'' @ newRealPath)
                                        (err r = None))))))))"

text \<open>
  \<^verbatim>\<open>NewAssetDir\<close>: no credential is loaded yet (\<^verbatim>\<open>suMaps\<close> is nil) and no connection
  is open; nothing has been sent, called or dialled. The configuration value
  \<^verbatim>\<open>ShowHiddenFile\<close> is a parameter.
\<close>

definition NewAssetDir :: "string \<Rightarrow> string \<Rightarrow> Asset \<Rightarrow> string \<Rightarrow> bool \<Rightarrow> AssetDir" where
  "NewAssetDir uname username a remoteAddr showHidden =
     \<lparr>user_Name = uname, user_Username = username, asset = a,
      ad_folderName = (if CHR ''/'' \<in> set (asset_Hostname a)
                       then ReplaceAll (asset_Hostname a) else asset_Hostname a),
      addr = remoteAddr, suMaps = [], logChan = [], sftpClients = Map.empty, once = False,
      ShowHidden = showHidden, requests = [], dials = []\<rparr>"

subsection \<open>Loading credentials and children\<close>

text \<open>
  The loop that both loaders run on a candidate folder name: while the map has the
  name, an underscore is appended. It ends because the map is finite: a name that is
  in the map is no longer than all keys together.
\<close>

lemma key_length_bound:
  "map_of dirs n \<noteq> None \<Longrightarrow> length n \<le> sum_list (map (length \<circ> fst) dirs)"
  by (induction dirs) (auto split: if_splits)

function freeFolderName :: "(string \<times> 'a) list \<Rightarrow> string \<Rightarrow> string" where
  "freeFolderName dirs folderName =
     (if map_of dirs folderName \<noteq> None then freeFolderName dirs (folderName @ ''_'')
      else folderName)"
  by pat_completeness auto
termination
proof (relation "measure (\<lambda>(dirs, n). Suc (sum_list (map (length \<circ> fst) dirs)) - length n)",
       goal_cases)
  case 1
  show ?case by simp
next
  case (2 dirs folderName)
  then show ?case
    using key_length_bound [of dirs folderName] by auto
qed

declare freeFolderName.simps [simp del]

text \<open>
  The loop of \<^verbatim>\<open>AssetDir.loadSystemUsers\<close> over the credentials that the directory
  service returned: a credential of protocol ssh is stored under its free folder name.
\<close>

fun loadSystemUsersLoop ::
  "SystemUser list \<Rightarrow> (string \<times> SystemUser) list \<Rightarrow> (string \<times> SystemUser) list" where
  "loadSystemUsersLoop [] sus = sus"
| "loadSystemUsersLoop (u # rest) sus =
     (if Protocol u = ''ssh''
      then loadSystemUsersLoop rest
             (AList.update (freeFolderName sus (ReplaceAll (Name u))) u sus)
      else loadSystemUsersLoop rest sus)"

text \<open>
  \<^verbatim>\<open>AssetDir.loadSystemUsers\<close>. The answers of the directory service are parameters:
  \<open>SystemUsers\<close> for \<^verbatim>\<open>GetSystemUsersByUserIdAndAssetId\<close> and \<open>detailAsset\<close> for
  \<^verbatim>\<open>GetAssetById\<close>, \<open>None\<close> for an error. The body runs once. The gateways that it
  fetches last go to \<^verbatim>\<open>domain\<close>, which only the connection broker reads.
\<close>

definition loadSystemUsers :: "SystemUser list option \<Rightarrow> Asset option \<Rightarrow> AssetDir \<Rightarrow> AssetDir" where
  "loadSystemUsers SystemUsers detailAsset ad =
     (if once ad then ad
      else
        (case SystemUsers of
           None \<Rightarrow> ad\<lparr>once := True\<rparr>
         | Some users \<Rightarrow>
             (case detailAsset of
                None \<Rightarrow> ad\<lparr>once := True, suMaps := loadSystemUsersLoop users []\<rparr>
              | Some d \<Rightarrow>
                  if asset_ID d = asset_ID (asset ad)
                  then ad\<lparr>once := True, suMaps := loadSystemUsersLoop users [], asset := d\<rparr>
                  else ad\<lparr>once := True, suMaps := loadSystemUsersLoop users []\<rparr>)))"

text \<open>\<^verbatim>\<open>model.Node\<close>, with the fields that the file reads.\<close>

record Node =
  Key :: string
  Value :: string

text \<open>
  \<^verbatim>\<open>NodeDir\<close>. A child in \<open>subDirs\<close> is a \<^verbatim>\<open>*NodeDir\<close> or an \<^verbatim>\<open>*AssetDir\<close>;
  \<open>nd_once\<close> says that the one-time load has run.
\<close>

datatype NodeDir =
  NodeDir (node: Node) (nd_folderName: string)
    (subDirs: "(string \<times> (NodeDir + AssetDir)) list") (nd_once: bool)

definition NewNodeDir :: "Node \<Rightarrow> NodeDir" where
  "NewNodeDir n =
     NodeDir n (if CHR ''/'' \<in> set (Value n) then ReplaceAll (Value n) else Value n) [] False"

text \<open>
  An item of the node tree that the directory service returns. \<open>typeName\<close> is
  \<^verbatim>\<open>Meta["type"]\<close> if that is a string, \<open>marshals\<close> says that \<^verbatim>\<open>json.Marshal\<close> of
  \<^verbatim>\<open>Meta["data"]\<close> succeeds, and \<open>asNode\<close> and \<open>asAsset\<close> are what
  \<^verbatim>\<open>model.ConvertMetaToNode\<close> and \<^verbatim>\<open>model.ConvertMetaToAsset\<close> make of it, \<open>None\<close> for
  an error.
\<close>

record TreeItem =
  ChkDisabled :: bool
  typeName :: "string option"
  marshals :: bool
  asNode :: "Node option"
  asAsset :: "Asset option"

text \<open>\<^verbatim>\<open>UserSftpConn\<close>, with the fields that a new \<^verbatim>\<open>AssetDir\<close> takes from it.\<close>

record UserSftpConn =
  User_Name :: string
  User_Username :: string
  Addr :: string

text \<open>
  The loop of \<^verbatim>\<open>NodeDir.loadNodeAsset\<close> over the items. \<open>IsSupportProtocol\<close> stands
  for the method of that name of \<^verbatim>\<open>model.Asset\<close>, which is declared outside this file,
  and \<open>showHidden\<close> for the configuration value that \<^verbatim>\<open>NewAssetDir\<close> reads. The
  new directory gets the free folder name; the source assigns it only when it differs
  from the name the directory already has, which comes to the same.
\<close>

fun loadNodeAssetLoop ::
  "(Asset \<Rightarrow> string \<Rightarrow> bool) \<Rightarrow> bool \<Rightarrow> UserSftpConn \<Rightarrow> TreeItem list
     \<Rightarrow> (string \<times> (NodeDir + AssetDir)) list \<Rightarrow> (string \<times> (NodeDir + AssetDir)) list" where
  "loadNodeAssetLoop IsSupportProtocol showHidden uSftp [] dirs = dirs"
| "loadNodeAssetLoop IsSupportProtocol showHidden uSftp (item # rest) dirs =
     (if ChkDisabled item then loadNodeAssetLoop IsSupportProtocol showHidden uSftp rest dirs
      else case typeName item of
        None \<Rightarrow> loadNodeAssetLoop IsSupportProtocol showHidden uSftp rest dirs
      | Some t \<Rightarrow>
          if \<not> marshals item
          then loadNodeAssetLoop IsSupportProtocol showHidden uSftp rest dirs
          else if t = ''node'' then
            (case asNode item of
               None \<Rightarrow> loadNodeAssetLoop IsSupportProtocol showHidden uSftp rest dirs
             | Some n \<Rightarrow>
                 (case NewNodeDir n of
                    NodeDir nn initial subs done \<Rightarrow>
                      loadNodeAssetLoop IsSupportProtocol showHidden uSftp rest
                        (AList.update (freeFolderName dirs initial)
                           (Inl (NodeDir nn (freeFolderName dirs initial) subs done)) dirs)))
          else if t = ''asset'' then
            (case asAsset item of
               None \<Rightarrow> loadNodeAssetLoop IsSupportProtocol showHidden uSftp rest dirs
             | Some a \<Rightarrow>
                 if \<not> IsSupportProtocol a ''ssh''
                 then loadNodeAssetLoop IsSupportProtocol showHidden uSftp rest dirs
                 else
                   (let assetDir = NewAssetDir (User_Name uSftp) (User_Username uSftp) a
                                     (Addr uSftp) showHidden;
                        folderName = freeFolderName dirs (ad_folderName assetDir)
                    in loadNodeAssetLoop IsSupportProtocol showHidden uSftp rest
                         (AList.update folderName
                            (Inr (assetDir\<lparr>ad_folderName := folderName\<rparr>)) dirs)))
          else loadNodeAssetLoop IsSupportProtocol showHidden uSftp rest dirs)"

text \<open>
  \<^verbatim>\<open>NodeDir.loadNodeAsset\<close>; \<open>nodeTrees\<close> is the answer of
  \<^verbatim>\<open>GetNodeTreeByUserAndNodeKey\<close>, \<open>None\<close> for an error. The body runs once.
\<close>

fun loadNodeAsset ::
  "(Asset \<Rightarrow> string \<Rightarrow> bool) \<Rightarrow> bool \<Rightarrow> UserSftpConn \<Rightarrow> TreeItem list option
     \<Rightarrow> NodeDir \<Rightarrow> NodeDir" where
  "loadNodeAsset IsSupportProtocol showHidden uSftp nodeTrees (NodeDir n fn subs done) =
     (if done then NodeDir n fn subs done
      else case nodeTrees of
        None \<Rightarrow> NodeDir n fn subs True
      | Some items \<Rightarrow>
          NodeDir n fn (loadNodeAssetLoop IsSupportProtocol showHidden uSftp items []) True)"

text \<open>The folder name a child of a node directory carries, and the label it was made from.\<close>

fun childName :: "NodeDir + AssetDir \<Rightarrow> string" where
  "childName (Inl nd) = nd_folderName nd"
| "childName (Inr ad) = ad_folderName ad"

fun childLabel :: "NodeDir + AssetDir \<Rightarrow> string" where
  "childLabel (Inl nd) = Value (node nd)"
| "childLabel (Inr ad) = asset_Hostname (asset ad)"

text \<open>The items that \<^verbatim>\<open>loadNodeAsset\<close> turns into children.\<close>

definition shown :: "(Asset \<Rightarrow> string \<Rightarrow> bool) \<Rightarrow> TreeItem \<Rightarrow> bool" where
  "shown IsSupportProtocol item =
     (\<not> ChkDisabled item \<and> marshals item
      \<and> (typeName item = Some ''node'' \<and> asNode item \<noteq> None
          \<or> typeName item = Some ''asset''
            \<and> (case asAsset item of None \<Rightarrow> False | Some a \<Rightarrow> IsSupportProtocol a ''ssh'')))"

subsection \<open>Notions for the statements\<close>

text \<open>
  Issuing a list of calls in order, from the history \<open>h\<close> on, up to and including
  the first call that the remote end answers with an error: the history afterwards,
  and that error (\<open>None\<close> when no call failed).
\<close>

fun issueUntilFailure ::
  "env \<Rightarrow> (nat \<times> request) list \<Rightarrow> (nat \<times> request) list
     \<Rightarrow> (nat \<times> request) list \<times> error option" where
  "issueUntilFailure e h [] = (h, None)"
| "issueUntilFailure e h (c # cs) =
     (case err (remote e h (fst c) (snd c)) of
        Some x \<Rightarrow> (h @ [c], Some x)
      | None \<Rightarrow> issueUntilFailure e (h @ [c]) cs)"

text \<open>
  What a walk returns that makes the calls \<open>rqs\<close> on the client \<open>c\<close>, in order, up to
  and including the first one that fails.
\<close>

definition performs :: "env \<Rightarrow> AssetDir \<Rightarrow> nat \<Rightarrow> request list \<Rightarrow> (error option \<times> AssetDir) option" where
  "performs e ad c rqs =
     (case issueUntilFailure e (requests ad) (map (Pair c) rqs) of
        (h, x) \<Rightarrow> Some (x, ad\<lparr>requests := h\<rparr>))"

text \<open>A remote directory tree: the entries of a directory are files and directories.\<close>

datatype tree = File string | Dir string "tree list"

fun entry :: "tree \<Rightarrow> RemoteFileInfo" where
  "entry (File n) = RemoteFileInfo n False"
| "entry (Dir n ts) = RemoteFileInfo n True"

text \<open>
  The calls that the recursive removal is to make for the entries \<open>ts\<close> of the
  directory \<open>p\<close>, in the words of the specification: a file is removed; for a
  directory its listing is read, then its entries are dealt with, and the directory
  itself is removed last.
\<close>

fun walkEntries :: "string \<Rightarrow> tree list \<Rightarrow> request list" where
  "walkEntries p [] = []"
| "walkEntries p (File n # ts) = ReqRemove (filepath_Join p n) # walkEntries p ts"
| "walkEntries p (Dir n ts' # ts) =
     ReqReadDir (filepath_Join p n) # walkEntries (filepath_Join p n) ts'
       @ [ReqRemoveDirectory (filepath_Join p n)] @ walkEntries p ts"

definition walkDir :: "string \<Rightarrow> tree list \<Rightarrow> request list" where
  "walkDir p ts = ReqReadDir p # walkEntries p ts @ [ReqRemoveDirectory p]"

text \<open>How deep directories are nested in the entries \<open>ts\<close>.\<close>

fun height :: "tree list \<Rightarrow> nat" where
  "height [] = 0"
| "height (File n # ts) = height ts"
| "height (Dir n ts' # ts) = max (Suc (height ts')) (height ts)"

text \<open>
  The remote end shows the tree: while the calls of the walk are answered without
  error, every listing that is read is the one of the tree.
\<close>

fun listed :: "env \<Rightarrow> (nat \<times> request) list \<Rightarrow> nat \<Rightarrow> string \<Rightarrow> tree list \<Rightarrow> bool" where
  "listed e h c p [] = True"
| "listed e h c p (File n # ts) =
     (err (remote e h c (ReqRemove (filepath_Join p n))) = None
      \<longrightarrow> listed e (h @ [(c, ReqRemove (filepath_Join p n))]) c p ts)"
| "listed e h c p (Dir n ts' # ts) =
     (err (remote e h c (ReqReadDir (filepath_Join p n))) = None
      \<longrightarrow> infos (remote e h c (ReqReadDir (filepath_Join p n))) = map entry ts'
          \<and> listed e (h @ [(c, ReqReadDir (filepath_Join p n))]) c (filepath_Join p n) ts'
          \<and> (snd (issueUntilFailure e (h @ [(c, ReqReadDir (filepath_Join p n))])
                     (map (Pair c) (walkEntries (filepath_Join p n) ts'
                                     @ [ReqRemoveDirectory (filepath_Join p n)]))) = None
               \<longrightarrow> listed e
                     (fst (issueUntilFailure e (h @ [(c, ReqReadDir (filepath_Join p n))])
                             (map (Pair c) (walkEntries (filepath_Join p n) ts'
                                             @ [ReqRemoveDirectory (filepath_Join p n)]))))
                     c p ts))"

definition dirListed :: "env \<Rightarrow> (nat \<times> request) list \<Rightarrow> nat \<Rightarrow> string \<Rightarrow> tree list \<Rightarrow> bool" where
  "dirListed e h c p ts =
     (err (remote e h c (ReqReadDir p)) = None
      \<longrightarrow> infos (remote e h c (ReqReadDir p)) = map entry ts
          \<and> listed e (h @ [(c, ReqReadDir p)]) c p ts)"

text \<open>The answer of the remote end to the last call recorded in \<open>ad\<close>.\<close>

definition lastReply :: "env \<Rightarrow> AssetDir \<Rightarrow> reply" where
  "lastReply e ad =
     remote e (butlast (requests ad)) (fst (last (requests ad))) (snd (last (requests ad)))"

text \<open>
  An invocation that took \<open>ad\<close> to \<open>ad'\<close> and ended as \<open>out\<close> is audited: if it
  made no call of an SFTP client then it sent no audit record; if it made one then it
  sent exactly one record, for the operation \<open>operate\<close>, it returned the error of its
  last call, and the record says success exactly when that error is nil.
\<close>

definition audited :: "env \<Rightarrow> AssetDir \<Rightarrow> AssetDir \<Rightarrow> error option outcome \<Rightarrow> Operate \<Rightarrow> bool" where
  "audited e ad ad' out operate =
     (if requests ad' = requests ad then logChan ad' = logChan ad
      else logChan ad' = logChan ad @ [last (logChan ad')]
           \<and> OperateOf (last (logChan ad')) = operate
           \<and> out = Return (err (lastReply e ad'))
           \<and> IsSuccess (last (logChan ad')) = (err (lastReply e ad') = None))"

text \<open>
  The name \<open>n\<close> is \<open>base\<close> with underscores appended until it is free: it is \<open>base\<close>
  followed by \<open>k\<close> underscores, it is not among the names \<open>taken\<close>, and every
  shorter candidate is.
\<close>

definition suffixedUntilFree :: "string list \<Rightarrow> string \<Rightarrow> string \<Rightarrow> bool" where
  "suffixedUntilFree taken base n =
     (let k = length n - length base in
      n = base @ replicate k CHR ''_'' \<and> n \<notin> set taken
      \<and> list_all (\<lambda>j. base @ replicate j CHR ''_'' \<in> set taken) [0..<k])"

text \<open>
  In a list of folder names with the labels they were made from, each name is its
  label with every slash replaced by an underscore, suffixed until it is free of the
  names assigned before it.
\<close>

definition namedInTurn :: "(string \<times> string) list \<Rightarrow> bool" where
  "namedInTurn xs =
     list_all (\<lambda>i. suffixedUntilFree (take i (map fst xs)) (ReplaceAll (snd (xs ! i))) (fst (xs ! i)))
       [0..<length xs]"

text \<open>The folder names of the credentials of an asset directory are distinct and named in turn.\<close>

definition credentialsNamed :: "(string \<times> SystemUser) list \<Rightarrow> bool" where
  "credentialsNamed sus =
     (distinct (map fst sus) \<and> namedInTurn (map (\<lambda>(k, u). (k, Name u)) sus))"

text \<open>
  The folder names of the children of a node directory are distinct and named in
  turn, and each child carries the name it is stored under.
\<close>

definition childrenNamed :: "(string \<times> (NodeDir + AssetDir)) list \<Rightarrow> bool" where
  "childrenNamed dirs =
     (distinct (map fst dirs) \<and> namedInTurn (map (\<lambda>(k, c). (k, childLabel c)) dirs)
      \<and> list_all (\<lambda>(k, c). childName c = k) dirs)"

subsection \<open>Inputs for the examples\<close>

definition okReply :: reply where
  "okReply = \<lparr>err = None, fileHandle = None, infos = [], target = [], info = None\<rparr>"

text \<open>A world where every dial gives a connection with home directory \<open>home\<close>.\<close>

definition reachable :: "string \<Rightarrow> env" where
  "reachable home =
     \<lparr>remote = (\<lambda>h c rq. okReply),
      GetSftpClient = (\<lambda>d su. Some \<lparr>HomeDirPath = home, client = 7\<rparr>)\<rparr>"

text \<open>A world where every dial fails.\<close>

definition unreachable :: env where
  "unreachable = \<lparr>remote = (\<lambda>h c rq. okReply), GetSftpClient = (\<lambda>d su. None)\<rparr>"

definition credential :: "string \<Rightarrow> string \<Rightarrow> Action list \<Rightarrow> SystemUser" where
  "credential n root acts =
     \<lparr>ID = n, Name = n, Protocol = ''ssh'', SftpRoot = root, Actions = acts\<rparr>"

definition host :: Asset where
  "host = \<lparr>asset_ID = ''a1'', asset_Hostname = ''host'', asset_OrgID = ''org'',
            asset_Domain = []\<rparr>"

text \<open>An asset directory whose credentials are loaded.\<close>

definition assetWith :: "(string \<times> SystemUser) list \<Rightarrow> AssetDir" where
  "assetWith sus =
     (NewAssetDir ''User'' ''user'' host ''10.0.0.9'' False)\<lparr>suMaps := sus, once := True\<rparr>"

definition twoCredentials :: AssetDir where
  "twoCredentials = assetWith [(''alice'', credential ''alice'' [] [AllAction]),
                               (''bob'', credential ''bob'' [] [AllAction])]"

definition uploader :: AssetDir where
  "uploader = assetWith [(''c'', credential ''c'' ''srv/data'' [UploadAction])]"

text \<open>
  A remote end that shows the directory \<^verbatim>\<open>/r\<close> with the file \<^verbatim>\<open>a\<close> and the directory
  \<^verbatim>\<open>d\<close>, which holds the file \<^verbatim>\<open>b\<close>, and that refuses the request \<open>bad\<close>.
\<close>

definition treeRemote :: "request \<Rightarrow> env" where
  "treeRemote bad =
     \<lparr>remote = (\<lambda>h c rq.
         if rq = bad then okReply\<lparr>err := Some ErrSshFxPermissionDenied\<rparr>
         else if rq = ReqReadDir ''/r''
           then okReply\<lparr>infos := [RemoteFileInfo ''a'' False, RemoteFileInfo ''d'' True]\<rparr>
         else if rq = ReqReadDir ''/r/d'' then okReply\<lparr>infos := [RemoteFileInfo ''b'' False]\<rparr>
         else okReply),
      GetSftpClient = (\<lambda>d su. Some \<lparr>HomeDirPath = ''/r'', client = 7\<rparr>)\<rparr>"


lemmas op_defs = selectFolder_def selectFolders_def IsUniqueSu_def getSubFolderNames_def
  GetSFTPAndRealPath_def call_def CreateFTPLog_def

text \<open>Credentials and tree items whose labels collide once the slashes are replaced.\<close>

definition namesakes :: "SystemUser list" where
  "namesakes = [credential ''a/b'' [] [AllAction], credential ''a_b'' [] [AllAction],
                (credential ''a_b'' [] [AllAction])\<lparr>Protocol := ''telnet''\<rparr>]"

definition someItems :: "TreeItem list" where
  "someItems =
     [\<lparr>ChkDisabled = False, typeName = Some ''node'', marshals = True,
       asNode = Some \<lparr>Key = ''1:1'', Value = ''n/1''\<rparr>, asAsset = None\<rparr>,
      \<lparr>ChkDisabled = False, typeName = Some ''asset'', marshals = True,
       asNode = None, asAsset = Some (host\<lparr>asset_Hostname := ''n_1''\<rparr>)\<rparr>,
      \<lparr>ChkDisabled = True, typeName = Some ''asset'', marshals = True,
       asNode = None, asAsset = Some host\<rparr>]"

definition someone :: UserSftpConn where
  "someone = \<lparr>User_Name = ''User'', User_Username = ''user'', Addr = ''10.0.0.9''\<rparr>"

lemmas ex_defs = Let_def okReply_def reachable_def unreachable_def credential_def host_def
  assetWith_def NewAssetDir_def

lemmas str_defs = TrimPrefix_def Split_def ToLower_def lower_char_def HasPrefix_def
  filepath_Join_def Clean_def atSeparatorOrEnd_def ReplaceAll_def parsePath_def

section \<open>Facts about paths, credentials and connections\<close>

lemma SplitAcc_nonempty: "SplitAcc acc s \<noteq> []"
  by (induction s arbitrary: acc) auto

lemma parsePath_nonempty: "parsePath path \<noteq> []"
  by (simp add: parsePath_def Split_def SplitAcc_nonempty)

lemma parsePath_empty: "path = [] \<or> path = ''/'' \<Longrightarrow> parsePath path = [[]]"
  by (auto simp: parsePath_def Split_def TrimPrefix_def)

lemma IsUniqueSu_single: "suMaps ad = [(key, su)] \<Longrightarrow> IsUniqueSu ad = (key, True)"
  by (simp add: IsUniqueSu_def getSubFolderNames_def)

lemma IsUniqueSu_not_single: "length (suMaps ad) \<noteq> 1 \<Longrightarrow> IsUniqueSu ad = ([], False)"
  by (simp add: IsUniqueSu_def getSubFolderNames_def)

text \<open>Getting the connection makes no call of an SFTP client and sends no audit record.\<close>

lemma GetSFTP_keeps:
  "GetSFTPAndRealPath e ad key su path = ((conn, rp), su', ad')
   \<Longrightarrow> requests ad' = requests ad \<and> logChan ad' = logChan ad"
  by (auto simp: GetSFTPAndRealPath_def Let_def split: option.splits if_splits)

lemma realPath_of_root:
  "GetSFTPAndRealPath e ad key su path = ((Some con, rp), su', ad')
   \<Longrightarrow> rp = filepath_Join
            (if ToLower (SftpRoot su) \<in> {[], ''~'', ''home''} then HomeDirPath con
             else if HasPrefix (SftpRoot su) CHR ''/'' then SftpRoot su else ''/'' @ SftpRoot su)
            (TrimPrefix path)"
  by (auto simp: GetSFTPAndRealPath_def Let_def split: option.splits if_splits prod.splits)

section \<open>The mode of an asset directory\<close>

lemma mode_bits_differ: "(292 :: FileMode) OR ModeDir \<noteq> 420 OR ModeDir"
  by (simp add: ModeDir_def)

text \<open>
  Claim C4 as the specification states it fails for an asset directory that holds no
  credential: \<^verbatim>\<open>Mode\<close> tests \<^verbatim>\<open>len(ad.suMaps) > 1\<close>, so a directory without
  credentials, as \<^verbatim>\<open>NewAssetDir\<close> makes it, has mode 0644|DIR and not 0444|DIR.
\<close>

theorem Mode_no_credential_counterexample:
  "length (suMaps (NewAssetDir ''User'' ''user'' host ''10.0.0.9'' False)) \<noteq> 1
   \<and> Mode (NewAssetDir ''User'' ''user'' host ''10.0.0.9'' False) = 420 OR ModeDir
   \<and> Mode (NewAssetDir ''User'' ''user'' host ''10.0.0.9'' False) \<noteq> 292 OR ModeDir"
  using mode_bits_differ by (simp add: Mode_def NewAssetDir_def)

text \<open>
  Claim C4, amended: \<^verbatim>\<open>AssetDir.Mode\<close> returns 0444|DIR if and only if the credential
  map holds more than one credential, and 0644|DIR if and only if it holds at most one
  (exactly one, or none).
\<close>

theorem Mode_by_credential_count:
  "(Mode ad = 292 OR ModeDir \<longleftrightarrow> 1 < length (suMaps ad))
   \<and> (Mode ad = 420 OR ModeDir \<longleftrightarrow> length (suMaps ad) \<le> 1)"
  using mode_bits_differ by (auto simp: Mode_def)

section \<open>The sandbox rewrite\<close>

text \<open>
  Claim C5: when \<^verbatim>\<open>GetSFTPAndRealPath\<close> has a connection \<open>con\<close> for the credential,
  the real path it returns is \<^verbatim>\<open>filepath.Join\<close> of the connection's home directory
  and the path without its leading slash if the lower-cased \<^verbatim>\<open>SftpRoot\<close> is one of
  \<^verbatim>\<open>""\<close>, \<^verbatim>\<open>"~"\<close>, \<^verbatim>\<open>"home"\<close>, and otherwise \<^verbatim>\<open>filepath.Join\<close> of \<^verbatim>\<open>SftpRoot\<close>,
  prefixed with a slash when it has none, and the path without its leading slash.
\<close>

theorem sandbox_rewrite:
  assumes "fst (fst (GetSFTPAndRealPath e ad key su path)) = Some con"
  shows "snd (fst (GetSFTPAndRealPath e ad key su path)) =
           (if ToLower (SftpRoot su) \<in> {[], ''~'', ''home''}
            then filepath_Join (HomeDirPath con) (TrimPrefix path)
            else filepath_Join
                   (if HasPrefix (SftpRoot su) CHR ''/'' then SftpRoot su else ''/'' @ SftpRoot su)
                   (TrimPrefix path))"
  using assms
  by (auto simp: GetSFTPAndRealPath_def Let_def split: option.splits if_splits prod.splits)

text \<open>
  The two examples of the claim: with \<^verbatim>\<open>sftp_root = "data"\<close> the path \<^verbatim>\<open>/x/y\<close> becomes
  \<^verbatim>\<open>/data/x/y\<close>, and with \<^verbatim>\<open>sftp_root = "~"\<close> and home \<^verbatim>\<open>/h/u\<close> the path \<^verbatim>\<open>/x\<close>
  becomes \<^verbatim>\<open>/h/u/x\<close>.
\<close>

theorem sandbox_rewrite_witness:
  "snd (fst (GetSFTPAndRealPath (reachable ''/h/u'')
               (assetWith [(''c'', credential ''c'' ''data'' [AllAction])])
               ''c'' (credential ''c'' ''data'' [AllAction]) ''/x/y'')) = ''/data/x/y''
   \<and> snd (fst (GetSFTPAndRealPath (reachable ''/h/u'')
               (assetWith [(''c'', credential ''c'' ''~'' [AllAction])])
               ''c'' (credential ''c'' ''~'' [AllAction]) ''/x'')) = ''/h/u/x''"
proof -
  have a: "fst (fst (GetSFTPAndRealPath (reachable ''/h/u'')
               (assetWith [(''c'', credential ''c'' ''data'' [AllAction])])
               ''c'' (credential ''c'' ''data'' [AllAction]) ''/x/y''))
           = Some \<lparr>HomeDirPath = ''/h/u'', client = 7\<rparr>"
    by (simp add: GetSFTPAndRealPath_def ex_defs str_defs)
  have b: "fst (fst (GetSFTPAndRealPath (reachable ''/h/u'')
               (assetWith [(''c'', credential ''c'' ''~'' [AllAction])])
               ''c'' (credential ''c'' ''~'' [AllAction]) ''/x''))
           = Some \<lparr>HomeDirPath = ''/h/u'', client = 7\<rparr>"
    by (simp add: GetSFTPAndRealPath_def ex_defs str_defs)
  show ?thesis
    using sandbox_rewrite [OF a] sandbox_rewrite [OF b]
    by (simp add: credential_def str_defs)
qed

section \<open>Authorization of the operations that need the Upload action\<close>

text \<open>
  \<^verbatim>\<open>Create\<close>, \<^verbatim>\<open>MkdirAll\<close>, \<^verbatim>\<open>Remove\<close>, \<^verbatim>\<open>RemoveDirectory\<close> and \<^verbatim>\<open>Symlink\<close> call
  \<^verbatim>\<open>validatePermission\<close>: for a credential without the action they return
  \<^verbatim>\<open>ErrSshFxPermissionDenied\<close> and leave the state as it is, so no connection is
  dialled and no call is made.
\<close>

lemma Upload_checked:
  assumes "selectFolder (IsUniqueSu ad) (parsePath path) = Return (folderName, rest)"
    and "map_of (suMaps ad) folderName = Some su"
    and "\<not> validatePermission (Actions su) UploadAction"
  shows "Create e ad path = (Return (None, Some ErrSshFxPermissionDenied), ad)"
    and "MkdirAll e ad path = (Return (Some ErrSshFxPermissionDenied), ad)"
    and "Remove e ad path = (Return (Some ErrSshFxPermissionDenied), ad)"
    and "RemoveDirectory fuel e ad path = Some (Return (Some ErrSshFxPermissionDenied), ad)"
  using assms
  by (simp_all add: Create_def MkdirAll_def Remove_def RemoveDirectory_def Let_def)

lemma Symlink_Upload_checked:
  assumes "selectFolders (IsUniqueSu ad) (parsePath old) (parsePath new)
             = Return (Some (folderName, ps, qs))"
    and "map_of (suMaps ad) folderName = Some su"
    and "\<not> validatePermission (Actions su) UploadAction"
  shows "Symlink e ad old new = (Return (Some ErrSshFxPermissionDenied), ad)"
  using assms by (simp add: Symlink_def Let_def)

text \<open>
  Claim C1 holds for these five operations and fails for \<^verbatim>\<open>Rename\<close>, which never calls
  \<^verbatim>\<open>validatePermission\<close>: with a single credential whose only action is Connect,
  renaming \<^verbatim>\<open>/a\<close> to \<^verbatim>\<open>/b\<close> calls \<^verbatim>\<open>Rename\<close> on the SFTP client and returns no error.
\<close>

theorem Rename_without_Upload:
  "\<not> validatePermission (Actions (credential ''c'' [] [ConnectAction])) UploadAction
   \<and> fst (Rename (reachable ''/home/u'')
             (assetWith [(''c'', credential ''c'' [] [ConnectAction])]) ''/a'' ''/b'')
       = Return None
   \<and> requests (snd (Rename (reachable ''/home/u'')
             (assetWith [(''c'', credential ''c'' [] [ConnectAction])]) ''/a'' ''/b''))
       = [(7, ReqRename ''/home/u/a'' ''/home/u/b'')]"
  by (simp add: Rename_def op_defs ex_defs str_defs)

section \<open>When the connection broker fails\<close>

text \<open>
  The operations on one path test the connection for nil and return
  \<^verbatim>\<open>ErrSshFxConnectionLost\<close>.
\<close>

lemma ConnectionLost_checked:
  assumes "\<not> (\<not> snd (IsUniqueSu ad) \<and> parsePath path = [[]])"
    and "selectFolder (IsUniqueSu ad) (parsePath path) = Return (folderName, rest)"
    and "map_of (suMaps ad) folderName = Some su"
    and "validatePermission (Actions su) UploadAction"
    and "fst (fst (GetSFTPAndRealPath e ad folderName su (JoinSlash rest))) = None"
  shows "fst (Create e ad path) = Return (None, Some ErrSshFxConnectionLost)"
    and "fst (MkdirAll e ad path) = Return (Some ErrSshFxConnectionLost)"
    and "fst (Remove e ad path) = Return (Some ErrSshFxConnectionLost)"
    and "map_option fst (RemoveDirectory fuel e ad path)
           = Some (Return (Some ErrSshFxConnectionLost))"
  using assms
  by (auto simp: Create_def MkdirAll_def Remove_def RemoveDirectory_def Let_def
      split: prod.splits option.splits)

text \<open>
  Claim C2 fails for \<^verbatim>\<open>Rename\<close> and \<^verbatim>\<open>Symlink\<close>: they only compare the two connections
  with each other. When the broker fails for both, nil equals nil and the method goes
  on to \<^verbatim>\<open>conn1.client\<close>, a nil pointer dereference, where \<^verbatim>\<open>Create\<close> on the same asset
  returns \<^verbatim>\<open>ErrSshFxConnectionLost\<close>.
\<close>

theorem Rename_Symlink_without_connection:
  "fst (Rename unreachable (assetWith [(''c'', credential ''c'' [] [AllAction])]) ''/a'' ''/b'')
     = Panic
   \<and> fst (Symlink unreachable (assetWith [(''c'', credential ''c'' [] [AllAction])]) ''/a'' ''/b'')
     = Panic
   \<and> fst (Create unreachable (assetWith [(''c'', credential ''c'' [] [AllAction])]) ''/a'')
     = Return (None, Some ErrSshFxConnectionLost)"
  by (simp add: Rename_def Symlink_def Create_def op_defs ex_defs str_defs)

section \<open>The calls of the recursive removal\<close>

lemma performs_Nil: "performs e ad c [] = Some (None, ad)"
  by (simp add: performs_def)

lemma performs_Cons:
  "performs e ad c (rq # rqs) =
     (case err (remote e (requests ad) c rq) of
        Some y \<Rightarrow> Some (Some y, ad\<lparr>requests := requests ad @ [(c, rq)]\<rparr>)
      | None \<Rightarrow> performs e (ad\<lparr>requests := requests ad @ [(c, rq)]\<rparr>) c rqs)"
  by (simp add: performs_def split: option.splits prod.splits)

lemma issue_map_append:
  "issueUntilFailure e h (xs @ ys) =
     (case issueUntilFailure e h xs of
        (h1, None) \<Rightarrow> issueUntilFailure e h1 ys
      | (h1, Some y) \<Rightarrow> (h1, Some y))"
  by (induction xs arbitrary: h) (auto split: option.splits prod.splits)

lemma performs_append:
  "performs e ad c (xs @ ys) =
     (case performs e ad c xs of
        Some (None, ad1) \<Rightarrow> performs e ad1 c ys
      | r \<Rightarrow> r)"
  by (auto simp: performs_def issue_map_append split: option.splits prod.splits)

lemma performs_requests:
  "performs e ad c xs = Some (x, ad1)
   \<Longrightarrow> requests ad1 = fst (issueUntilFailure e (requests ad) (map (Pair c) xs))
       \<and> x = snd (issueUntilFailure e (requests ad) (map (Pair c) xs))"
  by (auto simp: performs_def split: prod.splits)

lemma performs_total: "\<exists>x ad1. performs e ad c xs = Some (x, ad1)"
  by (auto simp: performs_def split: prod.splits)

lemma dir_walk:
  assumes "removeFiles f e (ad\<lparr>requests := requests ad @ [(c, ReqReadDir q)]\<rparr>) c q (map entry ts)
             = performs e (ad\<lparr>requests := requests ad @ [(c, ReqReadDir q)]\<rparr>) c (walkEntries q ts)"
    and "err (remote e (requests ad) c (ReqReadDir q)) = None
         \<Longrightarrow> infos (remote e (requests ad) c (ReqReadDir q)) = map entry ts"
  shows "removeDirectoryAll (Suc f) e ad c q = performs e ad c (walkDir q ts)"
proof (cases "err (remote e (requests ad) c (ReqReadDir q))")
  case (Some y)
  then show ?thesis
    by (simp add: walkDir_def performs_Cons call_def)
next
  case None
  let ?ad1 = "ad\<lparr>requests := requests ad @ [(c, ReqReadDir q)]\<rparr>"
  obtain x ad2 where p: "performs e ?ad1 c (walkEntries q ts) = Some (x, ad2)"
    using performs_total by blast
  show ?thesis
    using None assms p
    by (cases x)
       (simp_all add: walkDir_def performs_Cons performs_append performs_Nil call_def
          split: option.splits)
qed

lemma removeFiles_walk:
  "listed e (requests ad) c p ts \<Longrightarrow> height ts \<le> fuel
   \<Longrightarrow> removeFiles fuel e ad c p (map entry ts) = performs e ad c (walkEntries p ts)"
proof (induction ts arbitrary: ad p fuel rule: height.induct)
  case 1
  then show ?case by (simp add: performs_Nil)
next
  case (2 n ts)
  then show ?case
    by (simp add: performs_Cons call_def split: option.splits)
next
  case (3 n ts' ts)
  let ?q = "filepath_Join p n"
  let ?ad1 = "ad\<lparr>requests := requests ad @ [(c, ReqReadDir ?q)]\<rparr>"
  from "3.prems" obtain f where f: "fuel = Suc f" "height ts' \<le> f"
    by (cases fuel) auto
  show ?case
  proof (cases "err (remote e (requests ad) c (ReqReadDir ?q))")
    case (Some y)
    then show ?thesis
      by (simp add: performs_Cons call_def f)
  next
    case None
    with "3.prems"(1) have
      l: "infos (remote e (requests ad) c (ReqReadDir ?q)) = map entry ts'"
         "listed e (requests ?ad1) c ?q ts'"
      by simp_all
    have sub: "removeFiles f e ?ad1 c ?q (map entry ts') = performs e ?ad1 c (walkEntries ?q ts')"
      using "3.IH"(1) [OF l(2) f(2)] .
    have dir: "removeDirectoryAll (Suc f) e ad c ?q = performs e ad c (walkDir ?q ts')"
      using dir_walk [OF sub] l(1) by simp
    obtain x ad2 where p: "performs e ad c (walkDir ?q ts') = Some (x, ad2)"
      using performs_total by blast
    have w: "walkEntries p (Dir n ts' # ts) = walkDir ?q ts' @ walkEntries p ts"
      by (simp add: walkDir_def)
    show ?thesis
    proof (cases x)
      case (Some y)
      then show ?thesis
        using dir p by (simp add: w performs_append f del: removeDirectoryAll.simps walkEntries.simps)
    next
      case nn: None
      from performs_requests [OF p] nn have
        r: "requests ad2 = fst (issueUntilFailure e (requests ad) (map (Pair c) (walkDir ?q ts')))"
           "snd (issueUntilFailure e (requests ad) (map (Pair c) (walkDir ?q ts'))) = None"
        by simp_all
      have "listed e (requests ad2) c p ts"
        using "3.prems"(1) None r by (simp add: walkDir_def)
      moreover have "height ts \<le> fuel" using "3.prems"(2) by simp
      ultimately have "removeFiles fuel e ad2 c p (map entry ts) = performs e ad2 c (walkEntries p ts)"
        by (rule "3.IH"(2))
      then show ?thesis
        using dir p nn by (simp add: w performs_append f del: removeDirectoryAll.simps walkEntries.simps)
    qed
  qed
qed

text \<open>
  On a remote end that shows the tree \<open>ts\<close> under \<open>p\<close> the walk returns once the fuel
  exceeds the depth of the tree, having made the calls of \<open>walkDir p ts\<close> up to the
  first failure.
\<close>

lemma walk_on_tree:
  assumes "dirListed e (requests ad) c p ts" and "height ts < fuel"
  shows "removeDirectoryAll fuel e ad c p = performs e ad c (walkDir p ts)"
proof -
  obtain f where f: "fuel = Suc f" "height ts \<le> f"
    using assms(2) by (cases fuel) auto
  have files: "removeFiles f e (ad\<lparr>requests := requests ad @ [(c, ReqReadDir p)]\<rparr>) c p
                 (map entry ts)
               = performs e (ad\<lparr>requests := requests ad @ [(c, ReqReadDir p)]\<rparr>) c
                   (walkEntries p ts)"
    if "err (remote e (requests ad) c (ReqReadDir p)) = None"
    using that assms(1) f(2) by (intro removeFiles_walk) (simp_all add: dirListed_def)
  show ?thesis
  proof (cases "err (remote e (requests ad) c (ReqReadDir p))")
    case None
    with assms(1) have "infos (remote e (requests ad) c (ReqReadDir p)) = map entry ts"
      by (simp add: dirListed_def)
    with dir_walk [OF files [OF None]] show ?thesis by (simp add: f)
  next
    case (Some y)
    then show ?thesis by (simp add: f walkDir_def performs_Cons call_def)
  qed
qed

lemma issue_extends: "\<exists>rest. fst (issueUntilFailure e h xs) = h @ rest"
proof (induction xs arbitrary: h)
  case Nil
  show ?case by simp
next
  case (Cons x xs)
  from Cons [of "h @ [x]"] show ?case
    by (auto split: option.splits)
qed

lemma issue_first: "\<exists>rest. fst (issueUntilFailure e h (x # xs)) = h @ x # rest"
  using issue_extends [of e "h @ [x]" xs] by (auto split: option.splits)

section \<open>Audit records\<close>

lemma issue_single:
  "issueUntilFailure e h [c] = (h @ [c], err (remote e h (fst c) (snd c)))"
  by (simp split: option.splits)

lemma issue_append:
  "issueUntilFailure e h xs = (h @ xs, None)
   \<Longrightarrow> issueUntilFailure e h (xs @ ys) = issueUntilFailure e (h @ xs) ys"
  by (induction xs arbitrary: h) (auto split: option.splits)

lemma issue_failed:
  "issueUntilFailure e h xs = (h', Some y) \<Longrightarrow> issueUntilFailure e h (xs @ ys) = (h', Some y)"
  by (induction xs arbitrary: h) (auto split: option.splits)

text \<open>
  For any remote end: the recursive removal, if it returns, has made at least one call,
  none of its calls but the last one failed, and it returns the error of the last one.
\<close>

lemma removal_trace:
  "removeDirectoryAll fuel e ad c p = Some (x, ad')
   \<Longrightarrow> \<exists>new. new \<noteq> [] \<and> ad' = ad\<lparr>requests := requests ad @ new\<rparr>
          \<and> issueUntilFailure e (requests ad) new = (requests ad @ new, x)"
  "removeFiles fuel e ad c p items = Some (x, ad')
   \<Longrightarrow> \<exists>new. ad' = ad\<lparr>requests := requests ad @ new\<rparr>
          \<and> issueUntilFailure e (requests ad) new = (requests ad @ new, x)"
proof (induction fuel e ad c p and fuel e ad c p items arbitrary: x ad' and x ad'
       rule: removeDirectoryAll_removeFiles.induct)
  case (1 e ad conn path)
  then show ?case by simp
next
  case (2 fuel e ad conn path)
  let ?c = "(conn, ReqReadDir path)"
  let ?r = "remote e (requests ad) conn (ReqReadDir path)"
  let ?ad1 = "ad\<lparr>requests := requests ad @ [?c]\<rparr>"
  show ?case
  proof (cases "err ?r")
    case (Some y)
    with "2.prems" have "x = Some y" "ad' = ?ad1"
      by (simp_all add: call_def)
    then show ?thesis
      using Some by (intro exI [of _ "[?c]"]) simp
  next
    case None
    then obtain x1 ad2 where rf: "removeFiles fuel e ?ad1 conn path (infos ?r) = Some (x1, ad2)"
      using "2.prems" by (auto simp: call_def split: option.splits)
    from "2.IH" [OF _ None rf] obtain new1 where
      n1: "ad2 = ?ad1\<lparr>requests := requests ?ad1 @ new1\<rparr>"
        "issueUntilFailure e (requests ?ad1) new1 = (requests ?ad1 @ new1, x1)"
      by (auto simp: call_def)
    show ?thesis
    proof (cases x1)
      case (Some y)
      with "2.prems" None rf have "x = Some y" "ad' = ad2"
        by (simp_all add: call_def)
      then show ?thesis
        using n1 None Some by (intro exI [of _ "?c # new1"]) simp
    next
      case nn: None
      let ?d = "(conn, ReqRemoveDirectory path)"
      from "2.prems" None rf nn have
        r: "x = err (remote e (requests ad2) conn (ReqRemoveDirectory path))"
           "ad' = ad2\<lparr>requests := requests ad2 @ [?d]\<rparr>"
        by (simp_all add: call_def)
      have "issueUntilFailure e (requests ?ad1) (new1 @ [?d]) = (requests ?ad1 @ new1 @ [?d], x)"
        using n1 nn r issue_append [of e "requests ?ad1" new1 "[?d]"]
        by (simp split: option.splits)
      then show ?thesis
        using n1 None r by (intro exI [of _ "?c # new1 @ [?d]"]) simp
    qed
  qed
next
  case (3 fuel e ad conn path)
  then show ?case by (intro exI [of _ "[]"]) simp
next
  case (4 fuel e ad conn path item files)
  let ?rp = "filepath_Join path (Name_of item)"
  show ?case
  proof (cases "IsDir_of item")
    case True
    then obtain x1 ad1 where rd: "removeDirectoryAll fuel e ad conn ?rp = Some (x1, ad1)"
      using "4.prems" by (auto simp: Let_def split: option.splits)
    from "4.IH"(1) [OF refl True rd] obtain new1 where
      n1: "ad1 = ad\<lparr>requests := requests ad @ new1\<rparr>"
        "issueUntilFailure e (requests ad) new1 = (requests ad @ new1, x1)"
      by auto
    show ?thesis
    proof (cases x1)
      case (Some y)
      with "4.prems" True rd have "x = Some y" "ad' = ad1"
        by (simp_all add: Let_def)
      then show ?thesis
        using n1 Some by (intro exI [of _ new1]) simp
    next
      case None
      with "4.prems" True rd have rf: "removeFiles fuel e ad1 conn path files = Some (x, ad')"
        by (simp add: Let_def)
      from "4.IH"(2) [OF refl True rd refl None rf] obtain new2 where
        n2: "ad' = ad1\<lparr>requests := requests ad1 @ new2\<rparr>"
          "issueUntilFailure e (requests ad1) new2 = (requests ad1 @ new2, x)"
        by auto
      have "issueUntilFailure e (requests ad) (new1 @ new2) = (requests ad @ new1 @ new2, x)"
        using n1 n2 None issue_append [of e "requests ad" new1 new2] by simp
      then show ?thesis
        using n1 n2 by (intro exI [of _ "new1 @ new2"]) simp
    qed
  next
    case False
    let ?c = "(conn, ReqRemove ?rp)"
    let ?r = "remote e (requests ad) conn (ReqRemove ?rp)"
    let ?ad1 = "ad\<lparr>requests := requests ad @ [?c]\<rparr>"
    show ?thesis
    proof (cases "err ?r")
      case (Some y)
      with "4.prems" False have "x = Some y" "ad' = ?ad1"
        by (simp_all add: call_def Let_def)
      then show ?thesis
        using Some by (intro exI [of _ "[?c]"]) simp
    next
      case None
      with "4.prems" False have rf: "removeFiles fuel e ?ad1 conn path files = Some (x, ad')"
        by (simp add: call_def Let_def)
      from "4.IH"(3) [OF refl False _ None rf] obtain new2 where
        n2: "ad' = ?ad1\<lparr>requests := requests ?ad1 @ new2\<rparr>"
          "issueUntilFailure e (requests ?ad1) new2 = (requests ?ad1 @ new2, x)"
        by (auto simp: call_def)
      then show ?thesis
        using None by (intro exI [of _ "?c # new2"]) simp
    qed
  qed
qed

lemma issue_last:
  "issueUntilFailure e h new = (h @ new, x) \<Longrightarrow> new \<noteq> []
   \<Longrightarrow> x = err (remote e (h @ butlast new) (fst (last new)) (snd (last new)))"
proof (induction new arbitrary: h)
  case Nil
  then show ?case by simp
next
  case (Cons c cs)
  show ?case
  proof (cases "err (remote e h (fst c) (snd c))")
    case None
    with Cons.prems have i: "issueUntilFailure e (h @ [c]) cs = ((h @ [c]) @ cs, x)"
      by simp
    show ?thesis
    proof (cases "cs = []")
      case True
      with i None show ?thesis by simp
    next
      case False
      from Cons.IH [OF i False] False show ?thesis by simp
    qed
  next
    case (Some y)
    with Cons.prems show ?thesis by auto
  qed
qed

lemma audited_keeps:
  "requests ad' = requests ad \<Longrightarrow> logChan ad' = logChan ad \<Longrightarrow> audited e ad ad' out operate"
  by (simp add: audited_def)

lemma Create_audited:
  "audited e ad (snd (Create e ad path)) (map_outcome snd (fst (Create e ad path))) OperateUpload"
  by (auto simp: Create_def audited_def lastReply_def CreateFTPLog_def call_def Let_def
      split: outcome.splits option.splits prod.splits dest: GetSFTP_keeps)

lemma Open_audited:
  "audited e ad (snd (Open e ad path)) (map_outcome snd (fst (Open e ad path))) OperateDownload"
  by (auto simp: Open_def audited_def lastReply_def CreateFTPLog_def call_def Let_def
      split: outcome.splits option.splits prod.splits dest: GetSFTP_keeps)

lemma MkdirAll_audited:
  "audited e ad (snd (MkdirAll e ad path)) (fst (MkdirAll e ad path)) OperateMkdir"
  by (auto simp: MkdirAll_def audited_def lastReply_def CreateFTPLog_def call_def Let_def
      split: outcome.splits option.splits prod.splits dest: GetSFTP_keeps)

lemma Remove_audited:
  "audited e ad (snd (Remove e ad path)) (fst (Remove e ad path)) OperateDelete"
  by (auto simp: Remove_def audited_def lastReply_def CreateFTPLog_def call_def Let_def
      split: outcome.splits option.splits prod.splits dest: GetSFTP_keeps)

lemma Rename_audited:
  "audited e ad (snd (Rename e ad old new)) (fst (Rename e ad old new)) OperateRename"
  by (auto simp: Rename_def audited_def lastReply_def CreateFTPLog_def call_def Let_def
      split: outcome.splits option.splits prod.splits dest!: GetSFTP_keeps)

lemma Symlink_audited:
  "audited e ad (snd (Symlink e ad old new)) (fst (Symlink e ad old new)) OperateSymlink"
  by (auto simp: Symlink_def audited_def lastReply_def CreateFTPLog_def call_def Let_def
      split: outcome.splits option.splits prod.splits dest!: GetSFTP_keeps)

lemma RemoveDirectory_audited:
  assumes "RemoveDirectory fuel e ad path = Some (out, ad')"
  shows "audited e ad ad' out OperateRemoveDir"
proof -
  have walk: "audited e ad (CreateFTPLog ad2 su OperateRemoveDir rp (x = None)) (Return x)
                OperateRemoveDir"
    if g: "GetSFTPAndRealPath e ad key su0 p = ((Some con, rp), su, ad1)"
      and w: "removeDirectoryAll fuel e ad1 (client con) rp = Some (x, ad2)"
    for key su0 p con rp su ad1 x ad2
  proof -
    from removal_trace(1) [OF w] obtain new where
      n: "new \<noteq> []" "ad2 = ad1\<lparr>requests := requests ad1 @ new\<rparr>"
         "issueUntilFailure e (requests ad1) new = (requests ad1 @ new, x)"
      by blast
    from issue_last [OF n(3) n(1)] have
      "x = err (remote e (requests ad1 @ butlast new) (fst (last new)) (snd (last new)))" .
    moreover from GetSFTP_keeps [OF g] have "requests ad1 = requests ad" "logChan ad1 = logChan ad"
      by simp_all
    ultimately show ?thesis
      using n(1) n(2)
      by (simp add: audited_def lastReply_def CreateFTPLog_def butlast_append)
  qed
  show ?thesis
    using assms walk
    by (auto simp: RemoveDirectory_def Let_def
        split: outcome.splits option.splits prod.splits if_splits
        dest: GetSFTP_keeps intro: audited_keeps)
qed

text \<open>
  Claim C3 as the specification states it fails: an invocation that is refused before
  the remote call sends no audit record at all. Here \<^verbatim>\<open>Create\<close> is denied for a
  credential whose only action is Connect, and the audit channel stays empty.
\<close>

theorem audit_on_denial_counterexample:
  "fst (Create (reachable ''/home/u'')
          (assetWith [(''c'', credential ''c'' [] [ConnectAction])]) ''/x'')
     = Return (None, Some ErrSshFxPermissionDenied)
   \<and> logChan (snd (Create (reachable ''/home/u'')
          (assetWith [(''c'', credential ''c'' [] [ConnectAction])]) ''/x'')) = []"
  by (simp add: Create_def op_defs ex_defs str_defs)

lemma RemoveDirectory_returns:
  assumes "\<forall>c p. dirListed e (requests ad) c p (trees c p) \<and> height (trees c p) < fuel"
  shows "\<exists>out ad'. RemoveDirectory fuel e ad path = Some (out, ad')"
proof -
  have walk: "\<exists>x ad2. removeDirectoryAll fuel e ad1 (client con) rp = Some (x, ad2)"
    if g: "GetSFTPAndRealPath e ad key su0 p = ((Some con, rp), su, ad1)"
    for key su0 p con rp su ad1
  proof -
    from GetSFTP_keeps [OF g] have "requests ad1 = requests ad" by simp
    with assms have "dirListed e (requests ad1) (client con) rp (trees (client con) rp)"
      "height (trees (client con) rp) < fuel"
      by simp_all
    from walk_on_tree [OF this] show ?thesis
      using performs_total [of e ad1 "client con"] by simp
  qed
  show ?thesis
    using walk
    by (fastforce simp: RemoveDirectory_def Let_def
        split: outcome.splits option.splits prod.splits if_splits)
qed

text \<open>
  Claim C3, amended: every invocation of a mutating operation (\<^verbatim>\<open>Create\<close>, \<^verbatim>\<open>Open\<close>,
  \<^verbatim>\<open>MkdirAll\<close>, \<^verbatim>\<open>Remove\<close>, \<^verbatim>\<open>Rename\<close>, \<^verbatim>\<open>Symlink\<close>, \<^verbatim>\<open>RemoveDirectory\<close>) that
  calls the SFTP client sends exactly one audit record, whose \<^verbatim>\<open>IsSuccess\<close> is true
  exactly when the error returned from the remote call is nil; an invocation that
  makes no remote call sends no audit record. \<^verbatim>\<open>RemoveDirectory\<close>, whose walk is bounded
  by fuel, does return and is audited whenever the remote end shows under every
  directory a finite tree of a depth below the fuel.
\<close>

theorem audit_records:
  "audited e ad (snd (Create e ad path)) (map_outcome snd (fst (Create e ad path))) OperateUpload
   \<and> audited e ad (snd (Open e ad path)) (map_outcome snd (fst (Open e ad path))) OperateDownload
   \<and> audited e ad (snd (MkdirAll e ad path)) (fst (MkdirAll e ad path)) OperateMkdir
   \<and> audited e ad (snd (Remove e ad path)) (fst (Remove e ad path)) OperateDelete
   \<and> audited e ad (snd (Rename e ad path new)) (fst (Rename e ad path new)) OperateRename
   \<and> audited e ad (snd (Symlink e ad path new)) (fst (Symlink e ad path new)) OperateSymlink
   \<and> (\<forall>out ad'. RemoveDirectory fuel e ad path = Some (out, ad')
         \<longrightarrow> audited e ad ad' out OperateRemoveDir)
   \<and> ((\<forall>c p. dirListed e (requests ad) c p (trees c p) \<and> height (trees c p) < fuel)
         \<longrightarrow> (\<exists>out ad'. RemoveDirectory fuel e ad path = Some (out, ad')
                 \<and> audited e ad ad' out OperateRemoveDir))"
proof -
  have "\<exists>out ad'. RemoveDirectory fuel e ad path = Some (out, ad')
                 \<and> audited e ad ad' out OperateRemoveDir"
    if "\<forall>c p. dirListed e (requests ad) c p (trees c p) \<and> height (trees c p) < fuel"
    using RemoveDirectory_returns [OF that, of path] RemoveDirectory_audited by blast
  then show ?thesis
    by (auto simp: Create_audited Open_audited MkdirAll_audited Remove_audited Rename_audited
        Symlink_audited intro: RemoveDirectory_audited)
qed

theorem audit_records_witness:
  "requests (snd (Create (reachable ''/home/u'') uploader ''/f.txt'')) \<noteq> requests uploader
   \<and> logChan (snd (Create (reachable ''/home/u'') uploader ''/f.txt''))
       = [last (logChan (snd (Create (reachable ''/home/u'') uploader ''/f.txt'')))]
   \<and> IsSuccess (last (logChan (snd (Create (reachable ''/home/u'') uploader ''/f.txt''))))
   \<and> \<not> IsSuccess (last (logChan (snd (Create (treeRemote (ReqCreate ''/srv/data/f.txt''))
                                          uploader ''/f.txt''))))
   \<and> (\<forall>c p. dirListed (reachable ''/home/u'') (requests uploader) c p []
             \<and> height ([] :: tree list) < 1)
   \<and> RemoveDirectory 1 (reachable ''/home/u'') uploader ''/d'' \<noteq> None
   \<and> audited (reachable ''/home/u'') uploader
       (snd (the (RemoveDirectory 1 (reachable ''/home/u'') uploader ''/d'')))
       (fst (the (RemoveDirectory 1 (reachable ''/home/u'') uploader ''/d'')))
       OperateRemoveDir
   \<and> requests (snd (the (RemoveDirectory 1 (reachable ''/home/u'') uploader ''/d'')))
       = [(7, ReqReadDir ''/srv/data/d''), (7, ReqRemoveDirectory ''/srv/data/d'')]"
proof -
  have a: "requests (snd (Create (reachable ''/home/u'') uploader ''/f.txt'')) \<noteq> requests uploader"
    by (simp add: Create_def uploader_def op_defs ex_defs str_defs)
  have b: "requests (snd (Create (treeRemote (ReqCreate ''/srv/data/f.txt'')) uploader ''/f.txt''))
             \<noteq> requests uploader"
    by (simp add: Create_def uploader_def treeRemote_def op_defs ex_defs str_defs)
  have c: "err (lastReply (reachable ''/home/u'')
                 (snd (Create (reachable ''/home/u'') uploader ''/f.txt''))) = None"
    by (simp add: lastReply_def Create_def uploader_def op_defs ex_defs str_defs)
  have d: "err (lastReply (treeRemote (ReqCreate ''/srv/data/f.txt''))
                 (snd (Create (treeRemote (ReqCreate ''/srv/data/f.txt'')) uploader ''/f.txt'')))
             \<noteq> None"
    by (simp add: lastReply_def Create_def uploader_def treeRemote_def op_defs ex_defs str_defs)
  have t: "\<forall>c p. dirListed (reachable ''/home/u'') (requests uploader) c p []
                 \<and> height ([] :: tree list) < 1"
    by (simp add: dirListed_def ex_defs)
  have l: "logChan uploader = []"
    by (simp add: uploader_def ex_defs)
  have "audited (reachable ''/home/u'') uploader
          (snd (Create (reachable ''/home/u'') uploader ''/f.txt''))
          (map_outcome snd (fst (Create (reachable ''/home/u'') uploader ''/f.txt'')))
          OperateUpload"
    using audit_records [where e = "reachable ''/home/u''" and ad = uploader
        and path = "''/f.txt''"]
    by simp
  then have ok: "logChan (snd (Create (reachable ''/home/u'') uploader ''/f.txt''))
       = [last (logChan (snd (Create (reachable ''/home/u'') uploader ''/f.txt'')))]
     \<and> IsSuccess (last (logChan (snd (Create (reachable ''/home/u'') uploader ''/f.txt''))))"
    using a c l by (simp add: audited_def)
  have "audited (treeRemote (ReqCreate ''/srv/data/f.txt'')) uploader
          (snd (Create (treeRemote (ReqCreate ''/srv/data/f.txt'')) uploader ''/f.txt''))
          (map_outcome snd
             (fst (Create (treeRemote (ReqCreate ''/srv/data/f.txt'')) uploader ''/f.txt'')))
          OperateUpload"
    using audit_records [where e = "treeRemote (ReqCreate ''/srv/data/f.txt'')"
        and ad = uploader and path = "''/f.txt''"]
    by simp
  then have failed: "\<not> IsSuccess (last (logChan
       (snd (Create (treeRemote (ReqCreate ''/srv/data/f.txt'')) uploader ''/f.txt''))))"
    using b d by (simp add: audited_def)
  from t audit_records [where e = "reachable ''/home/u''" and ad = uploader
        and path = "''/d''" and fuel = 1 and trees = "\<lambda>c p. []"]
  obtain out ad' where
    r: "RemoveDirectory 1 (reachable ''/home/u'') uploader ''/d'' = Some (out, ad')"
       "audited (reachable ''/home/u'') uploader ad' out OperateRemoveDir"
    by blast
  have q: "requests (snd (the (RemoveDirectory 1 (reachable ''/home/u'') uploader ''/d'')))
       = [(7, ReqReadDir ''/srv/data/d''), (7, ReqRemoveDirectory ''/srv/data/d'')]"
    by (simp add: RemoveDirectory_def uploader_def op_defs ex_defs str_defs)
  show ?thesis
    using a ok failed t r q by simp
qed

section \<open>Listing the credential folders\<close>

text \<open>
  Claim C6: for an asset directory with more than one credential, \<^verbatim>\<open>ReadDir\<close> on the
  empty path returns one synthetic directory entry for each credential folder name and
  nothing else, with no error, and leaves the state as it is: no call of an SFTP
  client is made and no connection is dialled or stored.
\<close>

theorem ReadDir_credential_folders:
  assumes "1 < length (suMaps ad)" and "path = [] \<or> path = ''/''"
  shows "ReadDir e ad path =
           (Return (map (\<lambda>n. Fake (NewFakeFile n True)) (map fst (suMaps ad)), None), ad)"
  using assms
  by (simp add: ReadDir_def parsePath_empty IsUniqueSu_not_single getSubFolderNames_def)

theorem ReadDir_credential_folders_witness:
  "1 < length (suMaps twoCredentials)
   \<and> ReadDir unreachable twoCredentials ''/'' =
       (Return ([Fake \<lparr>name = ''alice'', isDir = True, fsize = 0, symlink = []\<rparr>,
                 Fake \<lparr>name = ''bob'', isDir = True, fsize = 0, symlink = []\<rparr>], None),
        twoCredentials)"
proof -
  have a: "1 < length (suMaps twoCredentials)"
    by (simp add: twoCredentials_def ex_defs)
  have b: "''/'' = [] \<or> ''/'' = ''/''" by simp
  show ?thesis
    using a ReadDir_credential_folders [OF a b, of unreachable]
    by (simp add: twoCredentials_def NewFakeFile_def ex_defs)
qed

section \<open>Two paths under different credential folders\<close>

text \<open>
  Claim C7: for an asset directory with more than one credential, if the first
  segments of the two paths differ then \<^verbatim>\<open>Rename\<close> returns \<^verbatim>\<open>ErrSshFxNoSuchFile\<close> and
  \<^verbatim>\<open>Symlink\<close> returns \<^verbatim>\<open>errNoSystemUser\<close>, and both leave the state as it is, so no
  call of an SFTP client is made.
\<close>

theorem cross_credential_paths:
  assumes "1 < length (suMaps ad)" and "hd (parsePath old) \<noteq> hd (parsePath new)"
  shows "Rename e ad old new = (Return (Some ErrSshFxNoSuchFile), ad)
         \<and> Symlink e ad old new = (Return (Some errNoSystemUser), ad)"
proof -
  obtain p ps where p: "parsePath old = p # ps"
    using parsePath_nonempty [of old] by (cases "parsePath old") auto
  obtain q qs where q: "parsePath new = q # qs"
    using parsePath_nonempty [of new] by (cases "parsePath new") auto
  have u: "IsUniqueSu ad = ([], False)"
    using assms(1) by (simp add: IsUniqueSu_not_single)
  have "p \<noteq> q" using assms(2) p q by simp
  then have "selectFolders (IsUniqueSu ad) (parsePath old) (parsePath new) = Return None"
    by (simp add: selectFolders_def u p q)
  then show ?thesis
    by (simp add: Rename_def Symlink_def)
qed

theorem cross_credential_paths_witness:
  "1 < length (suMaps twoCredentials)
   \<and> hd (parsePath ''/alice/a'') \<noteq> hd (parsePath ''/bob/b'')
   \<and> Rename (reachable ''/home/u'') twoCredentials ''/alice/a'' ''/bob/b''
       = (Return (Some ErrSshFxNoSuchFile), twoCredentials)
   \<and> Symlink (reachable ''/home/u'') twoCredentials ''/alice/a'' ''/bob/b''
       = (Return (Some errNoSystemUser), twoCredentials)"
proof -
  have a: "1 < length (suMaps twoCredentials)"
    by (simp add: twoCredentials_def ex_defs)
  have b: "hd (parsePath ''/alice/a'') \<noteq> hd (parsePath ''/bob/b'')"
    by (simp add: str_defs)
  show ?thesis
    using a b cross_credential_paths [OF a b, of "reachable ''/home/u''"] by simp
qed

section \<open>Recursive removal of a directory\<close>



section \<open>Destructive operations on the empty path\<close>

text \<open>
  Claim C10 as the specification states it fails in two places: the guard on the empty
  path also applies to an asset directory without any credential, and with exactly
  one credential the operation is still refused with \<^verbatim>\<open>ErrSshFxPermissionDenied\<close>
  when that credential lacks the Upload action.
\<close>

theorem empty_path_counterexample:
  "length (suMaps (assetWith [])) = 0
   \<and> Create (reachable ''/home/u'') (assetWith []) []
       = (Return (None, Some ErrSshFxPermissionDenied), assetWith [])
   \<and> length (suMaps (assetWith [(''c'', credential ''c'' [] [ConnectAction])])) = 1
   \<and> Remove (reachable ''/home/u'') (assetWith [(''c'', credential ''c'' [] [ConnectAction])]) []
       = (Return (Some ErrSshFxPermissionDenied),
          assetWith [(''c'', credential ''c'' [] [ConnectAction])])"
  by (simp add: Create_def Remove_def op_defs ex_defs str_defs)

lemma RemoveDirectory_forwarded:
  assumes "path = [] \<or> path = ''/''" and "suMaps ad = [(key, su)]"
    and "validatePermission (Actions su) UploadAction"
    and "GetSFTPAndRealPath e ad key su [] = ((Some con, root), su', ad1)"
    and "dirListed e (requests ad) (client con) root ts" and "height ts < fuel"
  shows "\<exists>ad' rest. RemoveDirectory fuel e ad path
             = Some (Return (snd (issueUntilFailure e (requests ad)
                                    (map (Pair (client con)) (walkDir root ts)))), ad')
           \<and> requests ad' = fst (issueUntilFailure e (requests ad)
                                   (map (Pair (client con)) (walkDir root ts)))
           \<and> requests ad' = requests ad @ (client con, ReqReadDir root) # rest"
proof -
  have u: "IsUniqueSu ad = (key, True)" using assms(2) by (simp add: IsUniqueSu_single)
  have p: "parsePath path = [[]]" using assms(1) by (rule parsePath_empty)
  have s: "selectFolder (key, True) [[]] = Return (key, [[]])"
    by (simp add: selectFolder_def)
  have m: "map_of (suMaps ad) key = Some su" using assms(2) by simp
  have k: "requests ad1 = requests ad" using GetSFTP_keeps [OF assms(4)] by simp
  let ?I = "issueUntilFailure e (requests ad) (map (Pair (client con)) (walkDir root ts))"
  have w: "removeDirectoryAll fuel e ad1 (client con) root
             = Some (snd ?I, ad1\<lparr>requests := fst ?I\<rparr>)"
    using walk_on_tree [of e ad1 "client con" root ts fuel] assms(5,6) k
    by (simp add: performs_def split: prod.splits)
  obtain rest where r: "fst ?I = requests ad @ (client con, ReqReadDir root) # rest"
    using issue_first [of e "requests ad" "(client con, ReqReadDir root)"]
    by (auto simp: walkDir_def)
  show ?thesis
    using r by (simp add: RemoveDirectory_def u p s m assms(3,4) w CreateFTPLog_def)
qed

text \<open>
  Claim C10, amended: for an asset directory with exactly one credential that carries
  the Upload (or All) action and for which a connection is obtained, \<^verbatim>\<open>Create\<close>,
  \<^verbatim>\<open>MkdirAll\<close>, \<^verbatim>\<open>Remove\<close> and \<^verbatim>\<open>RemoveDirectory\<close> on the empty path are not refused:
  the empty remainder is rewritten to the sandbox root of the credential itself and
  the operation is forwarded to the remote end with that path. For \<^verbatim>\<open>RemoveDirectory\<close>
  this means that, on a remote end that shows a finite tree under the sandbox root,
  it returns, its first call reads the listing of the sandbox root, and its calls are
  those of the walk of that tree up to the first failure, whose error it returns. The
  guard that refuses the empty path with \<^verbatim>\<open>ErrSshFxPermissionDenied\<close> applies whenever
  the asset directory does not hold exactly one credential (several, or none).
\<close>

theorem empty_path_destructive:
  assumes "path = [] \<or> path = ''/''"
  shows "(suMaps ad = [(key, su)] \<and> validatePermission (Actions su) UploadAction
          \<and> GetSFTPAndRealPath e ad key su [] = ((Some con, root), su', ad1)
          \<longrightarrow> root = filepath_Join
                    (if ToLower (SftpRoot su) \<in> {[], ''~'', ''home''} then HomeDirPath con
                     else if HasPrefix (SftpRoot su) CHR ''/'' then SftpRoot su
                     else ''/'' @ SftpRoot su) []
              \<and> requests (snd (Create e ad path)) = requests ad @ [(client con, ReqCreate root)]
              \<and> fst (Create e ad path)
                  = Return (fileHandle (remote e (requests ad) (client con) (ReqCreate root)),
                            err (remote e (requests ad) (client con) (ReqCreate root)))
              \<and> requests (snd (MkdirAll e ad path)) = requests ad @ [(client con, ReqMkdirAll root)]
              \<and> fst (MkdirAll e ad path)
                  = Return (err (remote e (requests ad) (client con) (ReqMkdirAll root)))
              \<and> requests (snd (Remove e ad path)) = requests ad @ [(client con, ReqRemove root)]
              \<and> fst (Remove e ad path)
                  = Return (err (remote e (requests ad) (client con) (ReqRemove root)))
              \<and> RemoveDirectory fuel e ad path
                  = (case removeDirectoryAll fuel e ad1 (client con) root of
                       None \<Rightarrow> None
                     | Some (x, ad2) \<Rightarrow>
                         Some (Return x, CreateFTPLog ad2 su' OperateRemoveDir root (x = None)))
              \<and> (dirListed e (requests ad) (client con) root ts \<and> height ts < fuel
                 \<longrightarrow> (\<exists>ad' rest.
                        RemoveDirectory fuel e ad path
                          = Some (Return (snd (issueUntilFailure e (requests ad)
                                                 (map (Pair (client con)) (walkDir root ts)))),
                                  ad')
                        \<and> requests ad'
                            = fst (issueUntilFailure e (requests ad)
                                     (map (Pair (client con)) (walkDir root ts)))
                        \<and> requests ad'
                            = requests ad @ (client con, ReqReadDir root) # rest)))
         \<and> (length (suMaps ad) \<noteq> 1
          \<longrightarrow> Create e ad path = (Return (None, Some ErrSshFxPermissionDenied), ad)
              \<and> MkdirAll e ad path = (Return (Some ErrSshFxPermissionDenied), ad)
              \<and> Remove e ad path = (Return (Some ErrSshFxPermissionDenied), ad)
              \<and> RemoveDirectory fuel e ad path
                  = Some (Return (Some ErrSshFxPermissionDenied), ad))"
proof (intro conjI impI)
  assume "length (suMaps ad) \<noteq> 1"
  then have u: "IsUniqueSu ad = ([], False)" by (rule IsUniqueSu_not_single)
  have p: "parsePath path = [[]]" using assms by (rule parsePath_empty)
  show "Create e ad path = (Return (None, Some ErrSshFxPermissionDenied), ad)"
    by (simp add: Create_def u p)
  show "MkdirAll e ad path = (Return (Some ErrSshFxPermissionDenied), ad)"
    by (simp add: MkdirAll_def u p)
  show "Remove e ad path = (Return (Some ErrSshFxPermissionDenied), ad)"
    by (simp add: Remove_def u p)
  show "RemoveDirectory fuel e ad path = Some (Return (Some ErrSshFxPermissionDenied), ad)"
    by (simp add: RemoveDirectory_def u p)
next
  assume a: "suMaps ad = [(key, su)] \<and> validatePermission (Actions su) UploadAction
             \<and> GetSFTPAndRealPath e ad key su [] = ((Some con, root), su', ad1)"
  then have u: "IsUniqueSu ad = (key, True)" by (simp add: IsUniqueSu_single)
  have p: "parsePath path = [[]]" using assms by (rule parsePath_empty)
  have s: "selectFolder (key, True) [[]] = Return (key, [[]])"
    by (simp add: selectFolder_def)
  have m: "map_of (suMaps ad) key = Some su" using a by simp
  have g: "GetSFTPAndRealPath e ad key su [] = ((Some con, root), su', ad1)"
    using a by simp
  have v: "validatePermission (Actions su) UploadAction"
    using a by simp
  have k: "requests ad1 = requests ad" using GetSFTP_keeps [OF g] by simp
  show "root = filepath_Join
                    (if ToLower (SftpRoot su) \<in> {[], ''~'', ''home''} then HomeDirPath con
                     else if HasPrefix (SftpRoot su) CHR ''/'' then SftpRoot su
                     else ''/'' @ SftpRoot su) []"
    using realPath_of_root [OF g] by (simp add: TrimPrefix_def)
  show "requests (snd (Create e ad path)) = requests ad @ [(client con, ReqCreate root)]"
    by (simp add: v Create_def u p s m g k call_def CreateFTPLog_def)
  show "fst (Create e ad path)
          = Return (fileHandle (remote e (requests ad) (client con) (ReqCreate root)),
                    err (remote e (requests ad) (client con) (ReqCreate root)))"
    by (simp add: v Create_def u p s m g k call_def CreateFTPLog_def)
  show "requests (snd (MkdirAll e ad path)) = requests ad @ [(client con, ReqMkdirAll root)]"
    by (simp add: v MkdirAll_def u p s m g k call_def CreateFTPLog_def)
  show "fst (MkdirAll e ad path)
          = Return (err (remote e (requests ad) (client con) (ReqMkdirAll root)))"
    by (simp add: v MkdirAll_def u p s m g k call_def CreateFTPLog_def)
  show "requests (snd (Remove e ad path)) = requests ad @ [(client con, ReqRemove root)]"
    by (simp add: v Remove_def u p s m g k call_def CreateFTPLog_def)
  show "fst (Remove e ad path)
          = Return (err (remote e (requests ad) (client con) (ReqRemove root)))"
    by (simp add: v Remove_def u p s m g k call_def CreateFTPLog_def)
  show "RemoveDirectory fuel e ad path
          = (case removeDirectoryAll fuel e ad1 (client con) root of
               None \<Rightarrow> None
             | Some (x, ad2) \<Rightarrow>
                 Some (Return x, CreateFTPLog ad2 su' OperateRemoveDir root (x = None)))"
    by (simp add: v RemoveDirectory_def u p s m g)
next
  assume a: "suMaps ad = [(key, su)] \<and> validatePermission (Actions su) UploadAction
             \<and> GetSFTPAndRealPath e ad key su [] = ((Some con, root), su', ad1)"
    and t: "dirListed e (requests ad) (client con) root ts \<and> height ts < fuel"
  show "\<exists>ad' rest.
          RemoveDirectory fuel e ad path
            = Some (Return (snd (issueUntilFailure e (requests ad)
                                   (map (Pair (client con)) (walkDir root ts)))),
                    ad')
          \<and> requests ad'
              = fst (issueUntilFailure e (requests ad)
                       (map (Pair (client con)) (walkDir root ts)))
          \<and> requests ad'
              = requests ad @ (client con, ReqReadDir root) # rest"
    using RemoveDirectory_forwarded [OF assms, of ad key su e con root su' ad1 ts fuel] a t
    by simp
qed

theorem empty_path_destructive_witness:
  "requests (snd (Create (reachable ''/home/u'') uploader [])) = [(7, ReqCreate ''/srv/data'')]
   \<and> fst (Create (reachable ''/home/u'') uploader []) = Return (None, None)
   \<and> dirListed (reachable ''/home/u'') (requests uploader) 7 ''/srv/data'' []
   \<and> height ([] :: tree list) < 1
   \<and> fst (the (RemoveDirectory 1 (reachable ''/home/u'') uploader [])) = Return None
   \<and> requests (snd (the (RemoveDirectory 1 (reachable ''/home/u'') uploader [])))
       = [(7, ReqReadDir ''/srv/data''), (7, ReqRemoveDirectory ''/srv/data'')]
   \<and> length (suMaps twoCredentials) \<noteq> 1
   \<and> Create (reachable ''/home/u'') twoCredentials ''/''
       = (Return (None, Some ErrSshFxPermissionDenied), twoCredentials)"
proof -
  have "\<exists>su' ad1. GetSFTPAndRealPath (reachable ''/home/u'') uploader ''c''
                     (credential ''c'' ''srv/data'' [UploadAction]) []
                   = ((Some \<lparr>HomeDirPath = ''/home/u'', client = 7\<rparr>, ''/srv/data''), su', ad1)"
    by (simp add: GetSFTPAndRealPath_def uploader_def ex_defs str_defs)
  then obtain su' ad1 where
    g: "GetSFTPAndRealPath (reachable ''/home/u'') uploader ''c''
          (credential ''c'' ''srv/data'' [UploadAction]) []
        = ((Some \<lparr>HomeDirPath = ''/home/u'', client = 7\<rparr>, ''/srv/data''), su', ad1)"
    by blast
  have s: "suMaps uploader = [(''c'', credential ''c'' ''srv/data'' [UploadAction])]"
    by (simp add: uploader_def ex_defs)
  have v: "validatePermission (Actions (credential ''c'' ''srv/data'' [UploadAction])) UploadAction"
    by (simp add: credential_def)
  have r: "requests uploader = []"
    by (simp add: uploader_def ex_defs)
  have n: "length (suMaps twoCredentials) \<noteq> 1"
    by (simp add: twoCredentials_def ex_defs)
  have t: "dirListed (reachable ''/home/u'') (requests uploader) 7 ''/srv/data'' []"
    by (simp add: dirListed_def ex_defs)
  have h: "height ([] :: tree list) < 1" by simp
  have p: "[] = [] \<or> [] = ''/''" by simp
  have q: "''/'' = [] \<or> ''/'' = ''/''" by simp
  note one = empty_path_destructive [OF p, of uploader "''c''"
        "credential ''c'' ''srv/data'' [UploadAction]" "reachable ''/home/u''"
        "\<lparr>HomeDirPath = ''/home/u'', client = 7\<rparr>" "''/srv/data''" su' ad1 1 "[]"]
  have c7: "client \<lparr>HomeDirPath = ''/home/u'', client = 7\<rparr> = 7" by simp
  from one [unfolded c7] s v g t h obtain ad' where
    w: "RemoveDirectory 1 (reachable ''/home/u'') uploader []
          = Some (Return (snd (issueUntilFailure (reachable ''/home/u'') (requests uploader)
                                 (map (Pair 7) (walkDir ''/srv/data'' [])))), ad')"
       "requests ad' = fst (issueUntilFailure (reachable ''/home/u'') (requests uploader)
                              (map (Pair 7) (walkDir ''/srv/data'' [])))"
    by blast
  have i: "issueUntilFailure (reachable ''/home/u'') [] (map (Pair 7) (walkDir ''/srv/data'' []))
             = ([(7, ReqReadDir ''/srv/data''), (7, ReqRemoveDirectory ''/srv/data'')], None)"
    by (simp add: walkDir_def ex_defs)
  from one [unfolded c7] s v g have
    cr: "requests (snd (Create (reachable ''/home/u'') uploader []))
           = requests uploader @ [(7, ReqCreate ''/srv/data'')]"
        "fst (Create (reachable ''/home/u'') uploader [])
           = Return (fileHandle (remote (reachable ''/home/u'') (requests uploader) 7
                                   (ReqCreate ''/srv/data'')),
                     err (remote (reachable ''/home/u'') (requests uploader) 7
                            (ReqCreate ''/srv/data'')))"
    by blast+
  from empty_path_destructive [OF q, of twoCredentials _ _ "reachable ''/home/u''"] n have
    guard: "Create (reachable ''/home/u'') twoCredentials ''/''
              = (Return (None, Some ErrSshFxPermissionDenied), twoCredentials)"
    by blast
  have rd: "fst (the (RemoveDirectory 1 (reachable ''/home/u'') uploader [])) = Return None"
    "requests (snd (the (RemoveDirectory 1 (reachable ''/home/u'') uploader [])))
       = [(7, ReqReadDir ''/srv/data''), (7, ReqRemoveDirectory ''/srv/data'')]"
    using w i r by simp_all
  show ?thesis
    using cr rd guard r n t h by (simp add: reachable_def okReply_def)
qed

section \<open>Folder names are unique\<close>

lemma freeFolderName_free: "map_of dirs (freeFolderName dirs n) = None"
proof (induction dirs n rule: freeFolderName.induct)
  case (1 dirs folderName)
  then show ?case
    by (subst freeFolderName.simps) auto
qed

lemma freeFolderName_form:
  "\<exists>k. freeFolderName dirs n = n @ replicate k CHR ''_''
       \<and> (\<forall>j<k. map_of dirs (n @ replicate j CHR ''_'') \<noteq> None)"
proof (induction dirs n rule: freeFolderName.induct)
  case (1 dirs folderName)
  show ?case
  proof (cases "map_of dirs folderName = None")
    case True
    then have "freeFolderName dirs folderName = folderName"
      by (subst freeFolderName.simps) simp
    then show ?thesis by (intro exI [of _ 0]) simp
  next
    case False
    then have f: "freeFolderName dirs folderName = freeFolderName dirs (folderName @ ''_'')"
      by (subst freeFolderName.simps) simp
    from "1.IH" False obtain k where
      k: "freeFolderName dirs (folderName @ ''_'') = (folderName @ ''_'') @ replicate k CHR ''_''"
         "\<forall>j<k. map_of dirs ((folderName @ ''_'') @ replicate j CHR ''_'') \<noteq> None"
      by blast
    have "\<forall>j<Suc k. map_of dirs (folderName @ replicate j CHR ''_'') \<noteq> None"
    proof (intro allI impI)
      fix j assume "j < Suc k"
      then show "map_of dirs (folderName @ replicate j CHR ''_'') \<noteq> None"
        using False k(2) by (cases j) auto
    qed
    then show ?thesis
      using f k(1) by (intro exI [of _ "Suc k"]) simp
  qed
qed

lemma freeFolderName_suffixed:
  "suffixedUntilFree (map fst dirs) base (freeFolderName dirs base)"
proof -
  from freeFolderName_form [of dirs base] obtain k where
    k: "freeFolderName dirs base = base @ replicate k CHR ''_''"
       "\<forall>j<k. map_of dirs (base @ replicate j CHR ''_'') \<noteq> None"
    by blast
  have "freeFolderName dirs base \<notin> set (map fst dirs)"
    using freeFolderName_free [of dirs base] by (simp add: map_of_eq_None_iff)
  moreover have "\<forall>j<k. base @ replicate j CHR ''_'' \<in> set (map fst dirs)"
    using k(2) by (simp add: map_of_eq_None_iff)
  ultimately show ?thesis
    using k(1) by (simp add: suffixedUntilFree_def list_all_iff)
qed

text \<open>Storing under a name that the map does not have adds an entry and overwrites none.\<close>

lemma update_fresh: "map_of dirs k = None \<Longrightarrow> AList.update k v dirs = dirs @ [(k, v)]"
  by (induction dirs) (auto split: if_splits)

lemma namedInTurn_snoc:
  assumes "namedInTurn xs" and "suffixedUntilFree (map fst xs) (ReplaceAll b) k"
  shows "namedInTurn (xs @ [(k, b)])"
  using assms
  by (auto simp: namedInTurn_def list_all_iff nth_append less_Suc_eq)

lemma ReplaceAll_id: "CHR ''/'' \<notin> set s \<Longrightarrow> ReplaceAll s = s"
  by (induction s) (auto simp: ReplaceAll_def)

lemma initial_name: "(if CHR ''/'' \<in> set s then ReplaceAll s else s) = ReplaceAll s"
  by (simp add: ReplaceAll_id)

lemma loadSystemUsersLoop_names:
  assumes "distinct (map fst sus)" and "namedInTurn (map (\<lambda>(k, u). (k, Name u)) sus)"
  shows "distinct (map fst (loadSystemUsersLoop users sus))
         \<and> namedInTurn (map (\<lambda>(k, u). (k, Name u)) (loadSystemUsersLoop users sus))
         \<and> map snd (loadSystemUsersLoop users sus)
             = map snd sus @ filter (\<lambda>u. Protocol u = ''ssh'') users"
  using assms
proof (induction users arbitrary: sus)
  case Nil
  then show ?case by simp
next
  case (Cons u users)
  show ?case
  proof (cases "Protocol u = ''ssh''")
    case False
    then show ?thesis using Cons by simp
  next
    case True
    let ?k = "freeFolderName sus (ReplaceAll (Name u))"
    have fresh: "map_of sus ?k = None" by (rule freeFolderName_free)
    then have up: "AList.update ?k u sus = sus @ [(?k, u)]" by (rule update_fresh)
    have d: "distinct (map fst (sus @ [(?k, u)]))"
      using Cons.prems(1) fresh by (simp add: map_of_eq_None_iff)
    have "suffixedUntilFree (map fst (map (\<lambda>(k, u). (k, Name u)) sus)) (ReplaceAll (Name u)) ?k"
      using freeFolderName_suffixed [of sus "ReplaceAll (Name u)"]
      by (simp add: comp_def case_prod_unfold)
    then have n: "namedInTurn (map (\<lambda>(k, u). (k, Name u)) (sus @ [(?k, u)]))"
      using namedInTurn_snoc [OF Cons.prems(2)] by simp
    from Cons.IH [OF d n] show ?thesis
      using True up by simp
  qed
qed

lemma credentialsNamed_loop:
  "credentialsNamed sus \<Longrightarrow> credentialsNamed (loadSystemUsersLoop users sus)"
  using loadSystemUsersLoop_names [of sus users] by (simp add: credentialsNamed_def)

lemma credentialsNamed_Nil: "credentialsNamed []"
  by (simp add: credentialsNamed_def namedInTurn_def)

lemma childrenNamed_Nil: "childrenNamed []"
  by (simp add: childrenNamed_def namedInTurn_def)

lemma childrenNamed_step:
  assumes "childrenNamed dirs" and "childName c = freeFolderName dirs (ReplaceAll (childLabel c))"
  shows "childrenNamed (AList.update (freeFolderName dirs (ReplaceAll (childLabel c))) c dirs)"
    and "length (AList.update (freeFolderName dirs (ReplaceAll (childLabel c))) c dirs)
           = Suc (length dirs)"
proof -
  let ?k = "freeFolderName dirs (ReplaceAll (childLabel c))"
  have fresh: "map_of dirs ?k = None" by (rule freeFolderName_free)
  then have up: "AList.update ?k c dirs = dirs @ [(?k, c)]" by (rule update_fresh)
  have d: "distinct (map fst (dirs @ [(?k, c)]))"
    using assms(1) fresh by (simp add: childrenNamed_def map_of_eq_None_iff)
  have "suffixedUntilFree (map fst (map (\<lambda>(k, c). (k, childLabel c)) dirs))
          (ReplaceAll (childLabel c)) ?k"
    using freeFolderName_suffixed [of dirs "ReplaceAll (childLabel c)"]
    by (simp add: comp_def case_prod_unfold)
  then have n: "namedInTurn (map (\<lambda>(k, c). (k, childLabel c)) (dirs @ [(?k, c)]))"
    using namedInTurn_snoc assms(1) by (simp add: childrenNamed_def)
  show "childrenNamed (AList.update ?k c dirs)"
    using d n assms by (simp add: up childrenNamed_def)
  show "length (AList.update ?k c dirs) = Suc (length dirs)"
    by (simp add: up)
qed

lemma loadNodeAssetLoop_names:
  assumes "childrenNamed dirs"
  shows "childrenNamed (loadNodeAssetLoop supports sh uSftp items dirs)
         \<and> length (loadNodeAssetLoop supports sh uSftp items dirs)
             = length dirs + length (filter (shown supports) items)"
  using assms
proof (induction items arbitrary: dirs)
  case Nil
  then show ?case by simp
next
  case (Cons item items)
  show ?case
  proof (cases "shown supports item")
    case False
    then have "loadNodeAssetLoop supports sh uSftp (item # items) dirs
                 = loadNodeAssetLoop supports sh uSftp items dirs"
      by (auto simp: shown_def split: option.splits)
    then show ?thesis using Cons False by simp
  next
    case True
    then obtain c where
      c: "loadNodeAssetLoop supports sh uSftp (item # items) dirs
            = loadNodeAssetLoop supports sh uSftp items
                (AList.update (freeFolderName dirs (ReplaceAll (childLabel c))) c dirs)"
         "childName c = freeFolderName dirs (ReplaceAll (childLabel c))"
    proof (cases "typeName item = Some ''node''")
      case node: True
      with True obtain n where n: "asNode item = Some n"
        by (auto simp: shown_def)
      let ?c = "Inl (NodeDir n (freeFolderName dirs (ReplaceAll (Value n))) [] False)
                  :: NodeDir + AssetDir"
      show ?thesis
        using True node n
        by (intro that [of ?c]) (simp_all add: shown_def NewNodeDir_def initial_name)
    next
      case False
      with True obtain a where a: "typeName item = Some ''asset''" "asAsset item = Some a"
          "supports a ''ssh''"
        by (auto simp: shown_def split: option.splits)
      let ?ad = "NewAssetDir (User_Name uSftp) (User_Username uSftp) a (Addr uSftp) sh"
      let ?c = "Inr (?ad\<lparr>ad_folderName := freeFolderName dirs (ReplaceAll (asset_Hostname a))\<rparr>)
                  :: NodeDir + AssetDir"
      show ?thesis
        using True a
        by (intro that [of ?c]) (simp_all add: shown_def NewAssetDir_def initial_name Let_def)
    qed
    from childrenNamed_step [OF Cons.prems c(2)] Cons.IH [of "AList.update
        (freeFolderName dirs (ReplaceAll (childLabel c))) c dirs"]
    show ?thesis
      using True c(1) by simp
  qed
qed

text \<open>
  Claim C9: after any load of credentials (\<^verbatim>\<open>AssetDir.loadSystemUsers\<close>) or of children
  (\<^verbatim>\<open>NodeDir.loadNodeAsset\<close>) the folder names used as map keys are pairwise distinct,
  and each is the label of its item (the name of the credential, the value of the
  node, the host name of the asset) with every slash replaced by an underscore, then
  suffixed with underscores until it is none of the names assigned before. A load
  that runs on the answer of the directory service keeps every credential of protocol
  ssh, and every child that is shown, under a name of its own: none overwrites another.
\<close>

theorem folder_names_unique:
  "(credentialsNamed (suMaps ad)
      \<longrightarrow> credentialsNamed (suMaps (loadSystemUsers SystemUsers detailAsset ad)))
   \<and> (\<not> once ad
      \<longrightarrow> credentialsNamed (suMaps (loadSystemUsers (Some users) detailAsset ad))
          \<and> map snd (suMaps (loadSystemUsers (Some users) detailAsset ad))
              = filter (\<lambda>u. Protocol u = ''ssh'') users)
   \<and> (childrenNamed (subDirs nd)
      \<longrightarrow> childrenNamed (subDirs (loadNodeAsset supports sh uSftp nodeTrees nd)))
   \<and> (\<not> nd_once nd
      \<longrightarrow> childrenNamed (subDirs (loadNodeAsset supports sh uSftp (Some items) nd))
          \<and> length (subDirs (loadNodeAsset supports sh uSftp (Some items) nd))
              = length (filter (shown supports) items))"
proof (intro conjI impI)
  assume "credentialsNamed (suMaps ad)"
  then show "credentialsNamed (suMaps (loadSystemUsers SystemUsers detailAsset ad))"
    using credentialsNamed_loop [OF credentialsNamed_Nil]
    by (simp add: loadSystemUsers_def split: option.splits)
next
  assume "\<not> once ad"
  then show "credentialsNamed (suMaps (loadSystemUsers (Some users) detailAsset ad))"
    using credentialsNamed_loop [OF credentialsNamed_Nil]
    by (simp add: loadSystemUsers_def split: option.splits)
next
  assume "\<not> once ad"
  moreover have "map snd (loadSystemUsersLoop users [])
                   = filter (\<lambda>u. Protocol u = ''ssh'') users"
    using loadSystemUsersLoop_names [of "[]" users] credentialsNamed_Nil
    by (simp add: credentialsNamed_def)
  ultimately show "map snd (suMaps (loadSystemUsers (Some users) detailAsset ad))
              = filter (\<lambda>u. Protocol u = ''ssh'') users"
    by (simp add: loadSystemUsers_def split: option.splits)
next
  assume "childrenNamed (subDirs nd)"
  then show "childrenNamed (subDirs (loadNodeAsset supports sh uSftp nodeTrees nd))"
    using loadNodeAssetLoop_names [OF childrenNamed_Nil]
    by (cases nd) (simp split: option.splits)
next
  assume "\<not> nd_once nd"
  then show "childrenNamed (subDirs (loadNodeAsset supports sh uSftp (Some items) nd))"
    using loadNodeAssetLoop_names [OF childrenNamed_Nil]
    by (cases nd) simp
next
  assume "\<not> nd_once nd"
  then show "length (subDirs (loadNodeAsset supports sh uSftp (Some items) nd))
              = length (filter (shown supports) items)"
    using loadNodeAssetLoop_names [OF childrenNamed_Nil, of supports sh uSftp items]
    by (cases nd) simp
qed

theorem folder_names_unique_witness:
  "\<not> once (NewAssetDir ''User'' ''user'' host ''10.0.0.9'' False)
   \<and> map fst (suMaps (loadSystemUsers (Some namesakes) None
                 (NewAssetDir ''User'' ''user'' host ''10.0.0.9'' False))) = [''a_b'', ''a_b_'']
   \<and> credentialsNamed (suMaps (loadSystemUsers (Some namesakes) None
                 (NewAssetDir ''User'' ''user'' host ''10.0.0.9'' False)))
   \<and> \<not> nd_once (NewNodeDir \<lparr>Key = ''1'', Value = ''Default''\<rparr>)
   \<and> map fst (subDirs (loadNodeAsset (\<lambda>a p. True) False someone (Some someItems)
                 (NewNodeDir \<lparr>Key = ''1'', Value = ''Default''\<rparr>))) = [''n_1'', ''n_1_'']
   \<and> childrenNamed (subDirs (loadNodeAsset (\<lambda>a p. True) False someone (Some someItems)
                 (NewNodeDir \<lparr>Key = ''1'', Value = ''Default''\<rparr>)))"
proof -
  have a: "\<not> once (NewAssetDir ''User'' ''user'' host ''10.0.0.9'' False)"
    by (simp add: NewAssetDir_def)
  have b: "\<not> nd_once (NewNodeDir \<lparr>Key = ''1'', Value = ''Default''\<rparr>)"
    by (simp add: NewNodeDir_def)
  have c: "map fst (suMaps (loadSystemUsers (Some namesakes) None
                 (NewAssetDir ''User'' ''user'' host ''10.0.0.9'' False))) = [''a_b'', ''a_b_'']"
    by (simp add: loadSystemUsers_def namesakes_def credential_def NewAssetDir_def
        ReplaceAll_def freeFolderName.simps)
  have d: "map fst (subDirs (loadNodeAsset (\<lambda>a p. True) False someone (Some someItems)
                 (NewNodeDir \<lparr>Key = ''1'', Value = ''Default''\<rparr>))) = [''n_1'', ''n_1_'']"
    by (simp add: NewNodeDir_def someItems_def someone_def host_def NewAssetDir_def
        ReplaceAll_def freeFolderName.simps Let_def)
  show ?thesis
    using a b c d
      folder_names_unique [of "NewAssetDir ''User'' ''user'' host ''10.0.0.9'' False"
        None None namesakes "NewNodeDir \<lparr>Key = ''1'', Value = ''Default''\<rparr>"
        "\<lambda>a p. True" False someone None someItems]
    by simp
qed

end
